theory Spec2Isabelle
  imports Complex_Main
begin

section \<open>Phishing classifier: the URL feature extractor\<close>

text \<open>
  A shallow embedding of \<^verbatim>\<open>src/utils/url_extractor.py\<close>, of the constant
  \<^verbatim>\<open>MODEL_FEATURE_ORDER\<close> and \<^verbatim>\<open>clean_features\<close> of \<^verbatim>\<open>api_utils.py\<close>, and of
  the extraction phase of \<^verbatim>\<open>main.py\<close>.

  Python strings are \<^typ>\<open>string\<close>, Python ints are \<^typ>\<open>int\<close>, a dict is a map, a call
  that may raise returns \<open>error + 'a\<close> (\<open>Inl\<close> is the raised exception). The
  libraries the extractor calls (urllib, tldextract, requests, whois, ssl/socket,
  dnspython, the clock, and the regular-expression scans over fetched HTML) are not
  code of the repository: they are the fields of the record \<open>env\<close>, and every
  theorem holds for every \<open>env\<close>. \<^verbatim>\<open>print\<close> is not modelled.
\<close>

subsection \<open>Strings\<close>

text \<open>\<^verbatim>\<open>s.startswith(p)\<close>, \<^verbatim>\<open>s.endswith(p)\<close>, \<^verbatim>\<open>p in s\<close>.\<close>

fun startswith :: "string \<Rightarrow> string \<Rightarrow> bool" where
  "startswith s [] = True"
| "startswith [] (p # ps) = False"
| "startswith (c # cs) (p # ps) = (c = p \<and> startswith cs ps)"

definition endswith :: "string \<Rightarrow> string \<Rightarrow> bool" where
  "endswith s p = startswith (rev s) (rev p)"

fun contains :: "string \<Rightarrow> string \<Rightarrow> bool" where
  "contains [] p = (p = [])"
| "contains (c # cs) p = (startswith (c # cs) p \<or> contains cs p)"

text \<open>\<^verbatim>\<open>s.split(c)\<close> for a one-character separator: never the empty list.\<close>

fun split_char :: "char \<Rightarrow> string \<Rightarrow> string list" where
  "split_char c [] = [[]]"
| "split_char c (x # xs) =
     (if x = c then [] # split_char c xs
      else (case split_char c xs of
              [] \<Rightarrow> [[x]]
            | p # ps \<Rightarrow> (x # p) # ps))"

text \<open>\<^verbatim>\<open>s.lower()\<close> on ASCII letters; other characters are left as they are.\<close>

definition lower_char :: "char \<Rightarrow> char" where
  "lower_char c =
     (case map_of (zip ''ABCDEFGHIJKLMNOPQRSTUVWXYZ'' ''abcdefghijklmnopqrstuvwxyz'') c of
        None \<Rightarrow> c
      | Some l \<Rightarrow> l)"

definition lower :: "string \<Rightarrow> string" where
  "lower s = map lower_char s"

definition is_digit :: "char \<Rightarrow> bool" where
  "is_digit c = (c \<in> set ''0123456789'')"

definition is_alpha :: "char \<Rightarrow> bool" where
  "is_alpha c = (c \<in> set ''abcdefghijklmnopqrstuvwxyzABCDEFGHIJKLMNOPQRSTUVWXYZ'')"

text \<open>The character class \<^verbatim>\<open>[a-zA-Z0-9\.\-]\<close>.\<close>

definition is_host_char :: "char \<Rightarrow> bool" where
  "is_host_char c = (is_alpha c \<or> is_digit c \<or> c = CHR ''.'' \<or> c = CHR ''-'')"

text \<open>
  Outside MULTILINE mode \<^verbatim>\<open>$\<close> matches at the end of the string and also just before
  a line feed that ends the string, so a pattern \<^verbatim>\<open>^C+$\<close> over a class \<open>C\<close> without
  the line feed matches \<open>s\<close> exactly when \<open>s\<close>, one final line feed removed, is a
  non-empty run of \<open>C\<close>.
\<close>

definition strip_final_newline :: "string \<Rightarrow> string" where
  "strip_final_newline s = (if s \<noteq> [] \<and> last s = CHR 0x0A then butlast s else s)"

text \<open>\<^verbatim>\<open>re.match(r'^[a-zA-Z0-9\.\-]+$', s)\<close>\<close>

definition match_host_chars :: "string \<Rightarrow> bool" where
  "match_host_chars s =
     (let b = strip_final_newline s in b \<noteq> [] \<and> list_all is_host_char b)"

text \<open>\<^verbatim>\<open>re.match(r'^[a-zA-Z]{2,}$', s)\<close>\<close>

definition match_tld :: "string \<Rightarrow> bool" where
  "match_tld s =
     (let b = strip_final_newline s in 2 \<le> length b \<and> list_all is_alpha b)"

text \<open>\<^verbatim>\<open>re.match(r'^\d+\.\d+\.\d+\.\d+$', s)\<close>, with ASCII digits.\<close>

definition match_ip :: "string \<Rightarrow> bool" where
  "match_ip s =
     (let parts = split_char CHR ''.'' (strip_final_newline s)
      in length parts = 4 \<and> list_all (\<lambda>p. p \<noteq> [] \<and> list_all is_digit p) parts)"

subsection \<open>Errors, library results and the environment\<close>

datatype error =
    ValueError string
  | IndexError
  | TypeError
  | LibraryError string
  | HTTPException int string

text \<open>The fields of \<^verbatim>\<open>urlparse(url)\<close> that the extractor reads.\<close>

record parse_result =
  scheme :: string
  netloc :: string
  path :: string

text \<open>The fields of \<^verbatim>\<open>tldextract.extract(host)\<close> that the extractor reads.\<close>

record extract_result =
  registered_domain :: string
  subdomain :: string

text \<open>A \<^verbatim>\<open>requests\<close> response: \<^verbatim>\<open>r.status_code\<close> and \<^verbatim>\<open>r.text\<close> (decoding may raise).\<close>

record response =
  status_code :: int
  text_of :: "error + string"

text \<open>
  What \<^verbatim>\<open>w.creation_date\<close> can hold: nothing, a string, a naive \<^verbatim>\<open>datetime\<close>, a
  timezone-aware \<^verbatim>\<open>datetime\<close> (both in microseconds on the clock's scale), or a list
  of these. \<^verbatim>\<open>datetime.now()\<close> is naive, and Python refuses to subtract an aware
  \<^verbatim>\<open>datetime\<close> from a naive one with \<^verbatim>\<open>TypeError\<close>.
\<close>

datatype date_value = NoDate | StrDate string | DateTime int | AwareDateTime int

datatype creation_date = Single date_value | Multiple "date_value list"

text \<open>A Python float, and the values a feature dict holds in \<^verbatim>\<open>main.py\<close>.\<close>

datatype pyfloat = Finite rat | NaN | PosInf | NegInf

datatype pyval = IntV int | FloatV pyfloat | StrV string

text \<open>The regular expressions that scan the fetched HTML (all with \<^verbatim>\<open>re.I\<close>).\<close>

datatype pattern =
    FaviconLink   \<comment> \<open>\<^verbatim>\<open><link[^>]+rel=["\']?(?:icon|shortcut icon)["\']?[^>]+href=[\'"]([^\'"]+)\<close>\<close>
  | ResourceRef   \<comment> \<open>\<^verbatim>\<open>(?:src|href)=["\']([^"\']+)\<close>\<close>
  | AnchorHref    \<comment> \<open>\<^verbatim>\<open><a[^>]+href=["\']([^"\']+)\<close>\<close>
  | TagRef        \<comment> \<open>\<^verbatim>\<open><(?:meta|script|link)[^>]+(?:src|href)=["\']([^"\']+)\<close>\<close>
  | FormAction    \<comment> \<open>\<^verbatim>\<open><form[^>]+action=["\']([^"\']*)\<close>\<close>
  | Mailto        \<comment> \<open>\<^verbatim>\<open>mailto:\<close>\<close>
  | OnMouseOver   \<comment> \<open>\<^verbatim>\<open>onmouseover\s*=\<close>\<close>
  | RightClickIdiom \<comment> \<open>\<^verbatim>\<open>event\.button\s*==\s*2\<close>\<close>
  | WindowOpen    \<comment> \<open>\<^verbatim>\<open>window\.open\s*\(\<close>\<close>

text \<open>
  The libraries and the outside world. \<open>requests_available\<close>, \<open>whois_available\<close>
  and \<open>dns_available\<close> say whether the guarded imports at the top of the module
  succeeded. \<open>re_search p html\<close> is group 1 of the first match (the whole match for
  a pattern without a group), \<open>re_findall p html\<close> the list of group 1 of all matches.
  \<open>float_of_str s\<close> is \<^verbatim>\<open>float(s)\<close>, \<open>None\<close> when it raises \<^verbatim>\<open>ValueError\<close>.
\<close>

record env =
  urlparse :: "string \<Rightarrow> error + parse_result"
  tldextract :: "string \<Rightarrow> extract_result"
  requests_available :: bool
  requests_get :: "string \<Rightarrow> error + response"
  whois_available :: bool
  whois_lookup :: "string \<Rightarrow> error + creation_date"
  datetime_now :: int
  datetime_utcnow :: int
  tls_getpeercert :: "string \<Rightarrow> error + (string \<rightharpoonup> string)"
  strptime :: "string \<Rightarrow> error + int"
  dns_available :: bool
  dns_resolve :: "string \<Rightarrow> error + unit"
  re_search :: "pattern \<Rightarrow> string \<Rightarrow> string option"
  re_findall :: "pattern \<Rightarrow> string \<Rightarrow> string list"
  float_of_str :: "string \<Rightarrow> pyfloat option"

text \<open>\<^verbatim>\<open>timedelta.days\<close>: whole days, rounded towards minus infinity.\<close>

definition timedelta_days :: "int \<Rightarrow> int" where
  "timedelta_days us = us div 86400000000"

subsection \<open>Constants\<close>

definition SHORTENERS :: "string list" where
  "SHORTENERS = [''bit.ly'', ''goo.gl'', ''tinyurl.com'', ''ow.ly'', ''t.co'', ''is.gd'',
     ''buff.ly'', ''adf.ly'']"

definition COLUMNS :: "string list" where
  "COLUMNS = [
    ''having_IP_Address'', ''URL_Length'', ''Shortining_Service'', ''having_At_Symbol'',
    ''double_slash_redirecting'', ''Prefix_Suffix'', ''having_Sub_Domain'', ''SSLfinal_State'',
    ''Domain_registeration_length'', ''Favicon'', ''port'', ''HTTPS_token'', ''Request_URL'',
    ''URL_of_Anchor'', ''Links_in_tags'', ''SFH'', ''Submitting_to_email'', ''Abnormal_URL'',
    ''Redirect'', ''on_mouseover'', ''RightClick'', ''popUpWidnow'', ''Iframe'', ''age_of_domain'',
    ''DNSRecord'', ''web_traffic'', ''Page_Rank'', ''Google_Index'', ''Links_pointing_to_page'',
    ''Statistical_report'', ''Result'']"

text \<open>\<^verbatim>\<open>api_utils.py\<close>, lines 12 to 20.\<close>

definition MODEL_FEATURE_ORDER :: "string list" where
  "MODEL_FEATURE_ORDER = [
    ''having_IP_Address'', ''URL_Length'', ''Shortining_Service'', ''having_At_Symbol'',
    ''double_slash_redirecting'', ''Prefix_Suffix'', ''having_Sub_Domain'', ''SSLfinal_State'',
    ''Domain_registeration_length'', ''Favicon'', ''port'', ''HTTPS_token'', ''Request_URL'',
    ''URL_of_Anchor'', ''Links_in_tags'', ''SFH'', ''Submitting_to_email'', ''Abnormal_URL'',
    ''Redirect'', ''on_mouseover'', ''RightClick'', ''popUpWidnow'', ''Iframe'', ''age_of_domain'',
    ''DNSRecord'', ''web_traffic'', ''Page_Rank'', ''Google_Index'', ''Links_pointing_to_page'',
    ''Statistical_report'']"

subsection \<open>The probes\<close>

text \<open>
  \<^verbatim>\<open>fetch_content\<close>: the body of the \<^verbatim>\<open>try\<close> first, then the function with its
  \<^verbatim>\<open>except Exception\<close> handler.
\<close>

definition fetch_content_try :: "env \<Rightarrow> string \<Rightarrow> error + (int option \<times> string option)" where
  "fetch_content_try env url =
     (case requests_get env url of
        Inl e \<Rightarrow> Inl e
      | Inr r \<Rightarrow>
          (case text_of r of
             Inl e \<Rightarrow> Inl e
           | Inr t \<Rightarrow> Inr (Some (status_code r), Some (take 100000 t))))"

definition fetch_content :: "env \<Rightarrow> string \<Rightarrow> error + (int option \<times> string option)" where
  "fetch_content env url =
     (if \<not> requests_available env then Inr (None, None)
      else (case fetch_content_try env url of
              Inl e \<Rightarrow> Inr (None, None)
            | Inr r \<Rightarrow> Inr r))"

text \<open>
  \<^verbatim>\<open>get_domain_age\<close>. The \<^verbatim>\<open>try\<close> body returns \<open>Inr None\<close> when it falls through
  to the final \<^verbatim>\<open>return -1\<close>; \<^verbatim>\<open>cd[0]\<close> on an empty list and the subtraction
  \<^verbatim>\<open>datetime.now() - cd\<close> on a timezone-aware date raise inside it.
\<close>

definition first_creation_date :: "creation_date \<Rightarrow> error + date_value" where
  "first_creation_date cd =
     (case cd of
        Single d \<Rightarrow> Inr d
      | Multiple ds \<Rightarrow> (case ds of [] \<Rightarrow> Inl IndexError | d # _ \<Rightarrow> Inr d))"

definition get_domain_age_try :: "env \<Rightarrow> string \<Rightarrow> error + int option" where
  "get_domain_age_try env domain =
     (case whois_lookup env domain of
        Inl e \<Rightarrow> Inl e
      | Inr w \<Rightarrow>
          (case first_creation_date w of
             Inl e \<Rightarrow> Inl e
           | Inr cd \<Rightarrow>
               (case cd of
                  NoDate \<Rightarrow> Inr None
                | StrDate s \<Rightarrow> Inr None
                | DateTime t \<Rightarrow> Inr (Some (timedelta_days (datetime_now env - t)))
                | AwareDateTime t \<Rightarrow> Inl TypeError)))"

definition get_domain_age :: "env \<Rightarrow> string \<Rightarrow> error + int" where
  "get_domain_age env domain =
     (if \<not> whois_available env \<or> domain = [] then Inr (- 1)
      else (case get_domain_age_try env domain of
              Inl e \<Rightarrow> Inr (- 1)
            | Inr None \<Rightarrow> Inr (- 1)
            | Inr (Some days) \<Rightarrow> Inr days))"

text \<open>\<^verbatim>\<open>check_ssl\<close>.\<close>

definition check_ssl_try :: "env \<Rightarrow> string \<Rightarrow> error + int" where
  "check_ssl_try env host =
     (case tls_getpeercert env host of
        Inl e \<Rightarrow> Inl e
      | Inr cert \<Rightarrow>
          (case cert ''notAfter'' of
             None \<Rightarrow> Inr 0
           | Some not_after \<Rightarrow>
               if not_after = [] then Inr 0
               else (case strptime env not_after of
                       Inl e \<Rightarrow> Inl e
                     | Inr expiry \<Rightarrow>
                         (let days_valid = timedelta_days (expiry - datetime_utcnow env)
                          in Inr (if days_valid > 365 then 1
                                  else (if days_valid > 30 then 0 else - 1))))))"

definition check_ssl :: "env \<Rightarrow> string \<Rightarrow> string \<Rightarrow> error + int" where
  "check_ssl env url host =
     (if \<not> startswith url ''https'' then Inr (- 1)
      else (case check_ssl_try env host of
              Inl e \<Rightarrow> Inr (- 1)
            | Inr v \<Rightarrow> Inr v))"

text \<open>\<^verbatim>\<open>check_dns\<close>.\<close>

definition check_dns :: "env \<Rightarrow> string \<Rightarrow> error + int" where
  "check_dns env domain =
     (if \<not> dns_available env \<or> domain = [] then Inr (- 1)
      else (case dns_resolve env domain of
              Inl e \<Rightarrow> Inr (- 1)
            | Inr u \<Rightarrow> Inr 1))"

subsection \<open>\<^verbatim>\<open>validate_url\<close>\<close>

definition validate_url :: "env \<Rightarrow> string \<Rightarrow> error + (bool \<times> string)" where
  "validate_url env url =
     (if url = [] \<or> length url < 4 then Inr (False, ''URL is too short'')
      else (case urlparse env url of
              Inl e \<Rightarrow> Inl e
            | Inr parsed \<Rightarrow>
                if scheme parsed = [] then
                  Inr (False, ''Missing protocol (http:// or https://)'')
                else if scheme parsed \<notin> set [''http'', ''https''] then
                  Inr (False, ''Invalid protocol: '' @ scheme parsed)
                else if netloc parsed = [] then
                  Inr (False, ''Invalid URL format. Missing domain'')
                else
                  (let host = hd (split_char CHR '':'' (netloc parsed)) in
                   if host = [] \<or> count_list host CHR ''.'' < 1 then
                     Inr (False, ''Invalid domain. Must have at least one dot'')
                   else if startswith host ''.'' \<or> endswith host ''.'' \<or> contains host ''..'' then
                     Inr (False, ''Invalid domain format'')
                   else if \<not> match_host_chars host then
                     Inr (False, ''Domain contains invalid characters'')
                   else
                     (let parts = split_char CHR ''.'' host in
                      if list_ex (\<lambda>part. length part = 0) parts then
                        Inr (False, ''Invalid domain structure'')
                      else
                        (let tld = last parts in
                         if \<not> match_tld tld then Inr (False, ''Invalid TLD: .'' @ tld)
                         else Inr (True, ''Valid URL''))))))"

subsection \<open>\<^verbatim>\<open>extract_features_from_url\<close>\<close>

text \<open>Lines 180 to 187: the bucket of \<^verbatim>\<open>age_days\<close>.\<close>

definition age_val_of :: "int \<Rightarrow> int" where
  "age_val_of age_days =
     (if age_days = - 1 then - 1
      else if age_days \<ge> 365 then 1
      else if age_days \<ge> 180 then 0
      else - 1)"

text \<open>
  Lines 150 to 199: the signals read off the URL and the three probes, whose results
  are passed in (\<open>ssl\<close>, \<open>age_val\<close>, \<open>dns\<close>).
\<close>

definition url_features ::
  "string \<Rightarrow> parse_result \<Rightarrow> string \<Rightarrow> string \<Rightarrow> int \<Rightarrow> int \<Rightarrow> int \<Rightarrow> (string \<rightharpoonup> int)" where
  "url_features url parsed host sub ssl age_val dns =
     (let len = length url;
          sub_count = (if sub \<noteq> [] then length (split_char CHR ''.'' sub) else 0)
      in Map.empty(
        ''having_IP_Address'' \<mapsto> (if match_ip host then - 1 else 1),
        ''URL_Length'' \<mapsto> (if len < 54 then 1 else (if len \<le> 75 then 0 else - 1)),
        ''Shortining_Service'' \<mapsto>
            (if list_ex (\<lambda>s. contains (lower host) s) SHORTENERS then - 1 else 1),
        ''having_At_Symbol'' \<mapsto> (if contains url ''@'' then - 1 else 1),
        ''double_slash_redirecting'' \<mapsto> (if contains (path parsed) ''//'' then - 1 else 1),
        ''Prefix_Suffix'' \<mapsto> (if contains host ''-'' then - 1 else 1),
        ''having_Sub_Domain'' \<mapsto>
            (if sub_count \<le> 1 then 1 else (if sub_count = 2 then 0 else - 1)),
        ''SSLfinal_State'' \<mapsto> ssl,
        ''Domain_registeration_length'' \<mapsto> age_val,
        ''age_of_domain'' \<mapsto> age_val,
        ''port'' \<mapsto>
            (if contains (netloc parsed) '':'' \<and>
                last (split_char CHR '':'' (netloc parsed)) \<notin> set [''80'', ''443'']
             then - 1 else 1),
        ''HTTPS_token'' \<mapsto> (if contains (lower host) ''https'' then - 1 else 1),
        ''DNSRecord'' \<mapsto> dns))"

text \<open>
  \<^verbatim>\<open>sum(1 for x in xs if cond(x))\<close>, where \<open>cond\<close> may raise: the first exception,
  from left to right, propagates.
\<close>

fun count_where :: "('a \<Rightarrow> error + bool) \<Rightarrow> 'a list \<Rightarrow> error + nat" where
  "count_where cond [] = Inr 0"
| "count_where cond (x # xs) =
     (case cond x of
        Inl e \<Rightarrow> Inl e
      | Inr b \<Rightarrow>
          (case count_where cond xs of
             Inl e \<Rightarrow> Inl e
           | Inr n \<Rightarrow> Inr ((if b then 1 else 0) + n)))"

text \<open>
  \<^verbatim>\<open>urlparse(l).netloc and tldextract.extract(urlparse(l).netloc).registered_domain != domain\<close>
\<close>

definition is_external :: "env \<Rightarrow> string \<Rightarrow> string \<Rightarrow> error + bool" where
  "is_external env domain l =
     (case urlparse env l of
        Inl e \<Rightarrow> Inl e
      | Inr p \<Rightarrow>
          Inr (netloc p \<noteq> [] \<and> registered_domain (tldextract env (netloc p)) \<noteq> domain))"

definition is_suspicious_anchor :: "env \<Rightarrow> string \<Rightarrow> string \<Rightarrow> error + bool" where
  "is_suspicious_anchor env domain a =
     (if startswith a ''#'' \<or> startswith a ''javascript:'' \<or> startswith a ''mailto:''
      then Inr True
      else is_external env domain a)"

text \<open>
  \<^verbatim>\<open>(count / len(xs) * 100) if xs else 0\<close>, as an exact rational (the source computes
  it in floating point).
\<close>

definition percent :: "nat \<Rightarrow> nat \<Rightarrow> rat" where
  "percent cnt n = (if n = 0 then 0 else of_nat cnt / of_nat n * 100)"

text \<open>Lines 204 to 209.\<close>

definition favicon_signal :: "env \<Rightarrow> string \<Rightarrow> string \<Rightarrow> error + int" where
  "favicon_signal env domain html =
     (case re_search env FaviconLink html of
        None \<Rightarrow> Inr 0
      | Some href \<Rightarrow>
          (case urlparse env href of
             Inl e \<Rightarrow> Inl e
           | Inr p \<Rightarrow>
               (let fav_domain = registered_domain (tldextract env (netloc p))
                in Inr (if fav_domain \<noteq> [] \<and> fav_domain \<noteq> domain then - 1 else 1))))"

text \<open>Lines 202 to 255: the signals read off the fetched page, added to \<open>features\<close>.\<close>

definition html_features ::
  "env \<Rightarrow> string \<Rightarrow> int option \<Rightarrow> string \<Rightarrow> (string \<rightharpoonup> int) \<Rightarrow> error + (string \<rightharpoonup> int)" where
  "html_features env domain status html features =
     (if html \<noteq> [] \<and> status = Some 200 then
        (case favicon_signal env domain html of
           Inl e \<Rightarrow> Inl e
         | Inr fav \<Rightarrow>
        (let links = re_findall env ResourceRef html in
         case count_where (is_external env domain) links of
           Inl e \<Rightarrow> Inl e
         | Inr ext_count \<Rightarrow>
        (let ext_pct = percent ext_count (length links);
             anchors = re_findall env AnchorHref html in
         case count_where (is_suspicious_anchor env domain) anchors of
           Inl e \<Rightarrow> Inl e
         | Inr susp_anch \<Rightarrow>
        (let anch_pct = percent susp_anch (length anchors);
             tags = re_findall env TagRef html in
         case count_where (is_external env domain) tags of
           Inl e \<Rightarrow> Inl e
         | Inr ext_tags \<Rightarrow>
        (let tag_pct = percent ext_tags (length tags);
             forms = re_findall env FormAction html
         in Inr (features(
              ''Favicon'' \<mapsto> fav,
              ''Request_URL'' \<mapsto> (if ext_pct < 22 then 1 else (if ext_pct \<le> 61 then 0 else - 1)),
              ''URL_of_Anchor'' \<mapsto> (if anch_pct < 31 then 1 else (if anch_pct \<le> 67 then 0 else - 1)),
              ''Links_in_tags'' \<mapsto> (if tag_pct < 17 then 1 else (if tag_pct \<le> 81 then 0 else - 1)),
              ''SFH'' \<mapsto>
                  (if list_ex (\<lambda>f. f = [] \<or> contains (lower f) ''about:blank'') forms
                   then - 1 else 1),
              ''Submitting_to_email'' \<mapsto> (if re_search env Mailto html \<noteq> None then - 1 else 1),
              ''on_mouseover'' \<mapsto> (if re_search env OnMouseOver html \<noteq> None then - 1 else 1),
              ''RightClick'' \<mapsto> (if re_search env RightClickIdiom html \<noteq> None then - 1 else 1),
              ''popUpWidnow'' \<mapsto> (if re_search env WindowOpen html \<noteq> None then - 1 else 1),
              ''Iframe'' \<mapsto> (if contains (lower html) ''<iframe'' then - 1 else 1))))))))
      else
        Inr (features(
          ''Favicon'' \<mapsto> - 1,
          ''Request_URL'' \<mapsto> - 1,
          ''URL_of_Anchor'' \<mapsto> - 1,
          ''Links_in_tags'' \<mapsto> - 1,
          ''SFH'' \<mapsto> - 1,
          ''Submitting_to_email'' \<mapsto> 0,
          ''on_mouseover'' \<mapsto> 0,
          ''RightClick'' \<mapsto> 0,
          ''popUpWidnow'' \<mapsto> 0,
          ''Iframe'' \<mapsto> 0)))"

text \<open>Lines 257 to 270.\<close>

definition closing_features ::
  "parse_result \<Rightarrow> string \<Rightarrow> int option \<Rightarrow> (string \<rightharpoonup> int) \<Rightarrow> (string \<rightharpoonup> int)" where
  "closing_features parsed domain status features =
     features(
       ''Abnormal_URL'' \<mapsto> (if domain \<noteq> [] \<and> scheme parsed \<noteq> [] then 1 else - 1),
       ''Redirect'' \<mapsto>
           (case status of
              None \<Rightarrow> 1
            | Some st \<Rightarrow> if st \<noteq> 0 \<and> 300 \<le> st \<and> st < 400 then - 1 else 1),
       ''web_traffic'' \<mapsto> 0,
       ''Page_Rank'' \<mapsto> 0,
       ''Google_Index'' \<mapsto> 0,
       ''Links_pointing_to_page'' \<mapsto> 0,
       ''Statistical_report'' \<mapsto> 0,
       ''Result'' \<mapsto> 1)"

text \<open>\<^verbatim>\<open>parsed.netloc.split(':')[0] if parsed.netloc else ''\<close>\<close>

definition host_of :: "parse_result \<Rightarrow> string" where
  "host_of parsed =
     (if netloc parsed \<noteq> [] then hd (split_char CHR '':'' (netloc parsed)) else [])"

definition extract_features_from_url :: "env \<Rightarrow> string \<Rightarrow> error + (string \<rightharpoonup> int)" where
  "extract_features_from_url env url =
     (case validate_url env url of
        Inl e \<Rightarrow> Inl e
      | Inr (is_valid, message) \<Rightarrow>
          if \<not> is_valid then Inl (ValueError (''Invalid URL: '' @ message))
          else
     (case urlparse env url of
        Inl e \<Rightarrow> Inl e
      | Inr parsed \<Rightarrow>
     (let host = host_of parsed;
          ext = tldextract env host;
          domain = registered_domain ext;
          sub = subdomain ext
      in
      case fetch_content env url of
        Inl e \<Rightarrow> Inl e
      | Inr (status, fetched) \<Rightarrow>
     (let html = (case fetched of None \<Rightarrow> [] | Some h \<Rightarrow> h) in
      case check_ssl env url host of
        Inl e \<Rightarrow> Inl e
      | Inr ssl \<Rightarrow>
     (case get_domain_age env domain of
        Inl e \<Rightarrow> Inl e
      | Inr age_days \<Rightarrow>
     (case check_dns env domain of
        Inl e \<Rightarrow> Inl e
      | Inr dns \<Rightarrow>
     (case html_features env domain status html
             (url_features url parsed host sub ssl (age_val_of age_days) dns) of
        Inl e \<Rightarrow> Inl e
      | Inr features \<Rightarrow> Inr (closing_features parsed domain status features))))))))"

subsection \<open>The batch endpoint's extraction phase (\<^verbatim>\<open>main.py\<close>, \<^verbatim>\<open>api_utils.py\<close>)\<close>

text \<open>
  \<^verbatim>\<open>clean_features\<close>: what it does to one value, then to the dict. The ints are
  those \<^verbatim>\<open>np.isnan\<close> accepts (below \<open>2 ^ 64\<close> in size; it raises \<^verbatim>\<open>TypeError\<close> on a
  larger one): the extractor stores only \<open>-1\<close>, \<open>0\<close> and \<open>1\<close>.
\<close>

definition clean_value :: "env \<Rightarrow> pyval \<Rightarrow> pyval" where
  "clean_value env v =
     (case v of
        StrV s \<Rightarrow> (case float_of_str env s of None \<Rightarrow> IntV 0 | Some x \<Rightarrow> FloatV x)
      | IntV i \<Rightarrow> IntV i
      | FloatV x \<Rightarrow> (case x of Finite q \<Rightarrow> FloatV x | NaN \<Rightarrow> IntV 0
                     | PosInf \<Rightarrow> IntV 0 | NegInf \<Rightarrow> IntV 0))"

definition clean_features :: "env \<Rightarrow> (string \<rightharpoonup> pyval) \<Rightarrow> (string \<rightharpoonup> pyval)" where
  "clean_features env features = (\<lambda>key. map_option (clean_value env) (features key))"

text \<open>\<^verbatim>\<open>process_url_features\<close>: \<open>None\<close> when the extraction raised.\<close>

definition process_url_features :: "env \<Rightarrow> string \<Rightarrow> (string \<rightharpoonup> pyval) option" where
  "process_url_features env url =
     (case extract_features_from_url env url of
        Inl e \<Rightarrow> None
      | Inr features \<Rightarrow>
          Some ((clean_features env (\<lambda>key. map_option IntV (features key)))
                  (''url'' \<mapsto> StrV url)))"

text \<open>
  \<^verbatim>\<open>predict_multi_url\<close>, lines 199 to 206 and the handler of lines 228 to 230: the
  feature dicts handed to the classifier, or the error the request ends with.
  \<^verbatim>\<open>asyncio.gather\<close> returns the results in the order of \<open>urls\<close>.
\<close>

definition predict_multi_url_features ::
  "env \<Rightarrow> string list \<Rightarrow> error + (string \<rightharpoonup> pyval) list" where
  "predict_multi_url_features env urls =
     (let results = map (process_url_features env) urls;
          valid_features = map the (filter (\<lambda>f. f \<noteq> None) results)
      in if valid_features = [] then
           Inl (HTTPException 400
                  ''No valid features could be extracted from any of the URLs.'')
         else Inr valid_features)"

subsection \<open>Signals\<close>

text \<open>
  A signal is one of \<open>-1\<close>, \<open>0\<close>, \<open>1\<close>. \<open>signal_of r k\<close> reads the entry \<open>k\<close> of a
  successful extraction \<open>r\<close>.
\<close>

definition is_signal :: "int \<Rightarrow> bool" where
  "is_signal v = (v = - 1 \<or> v = 0 \<or> v = 1)"

definition signals :: "(string \<rightharpoonup> int) \<Rightarrow> bool" where
  "signals m = (\<forall>k v. m k = Some v \<longrightarrow> is_signal v)"

definition signal_of :: "error + (string \<rightharpoonup> int) \<Rightarrow> string \<Rightarrow> int option" where
  "signal_of r k = (case r of Inl e \<Rightarrow> None | Inr f \<Rightarrow> f k)"

subsection \<open>The WHOIS age and its bucket, in the words of the specification\<close>

text \<open>
  The age of a domain in days: the days from its creation date, naive or
  timezone-aware, to the clock's reading. \<open>None\<close> when it is unavailable: no whois
  capability, an empty domain, a lookup error, a missing or string-typed creation
  date (of a list of dates the first one counts).
\<close>

definition whois_age_spec :: "env \<Rightarrow> string \<Rightarrow> int option" where
  "whois_age_spec env domain =
     (if \<not> whois_available env then None
      else if domain = [] then None
      else (case whois_lookup env domain of
              Inl e \<Rightarrow> None
            | Inr (Single NoDate) \<Rightarrow> None
            | Inr (Single (StrDate s)) \<Rightarrow> None
            | Inr (Single (DateTime t)) \<Rightarrow> Some (timedelta_days (datetime_now env - t))
            | Inr (Single (AwareDateTime t)) \<Rightarrow> Some (timedelta_days (datetime_now env - t))
            | Inr (Multiple []) \<Rightarrow> None
            | Inr (Multiple (NoDate # ds)) \<Rightarrow> None
            | Inr (Multiple (StrDate s # ds)) \<Rightarrow> None
            | Inr (Multiple (DateTime t # ds)) \<Rightarrow> Some (timedelta_days (datetime_now env - t))
            | Inr (Multiple (AwareDateTime t # ds)) \<Rightarrow>
                Some (timedelta_days (datetime_now env - t))))"

text \<open>Whether WHOIS answers with a timezone-aware creation date.\<close>

definition creation_date_aware :: "env \<Rightarrow> string \<Rightarrow> bool" where
  "creation_date_aware env domain =
     (whois_available env \<and> domain \<noteq> [] \<and>
      (case whois_lookup env domain of
         Inl e \<Rightarrow> False
       | Inr w \<Rightarrow>
           (case first_creation_date w of
              Inl e \<Rightarrow> False
            | Inr d \<Rightarrow> (case d of AwareDateTime t \<Rightarrow> True | _ \<Rightarrow> False))))"

text \<open>
  At least 365 days gives 1, at least 180 days gives 0, anything else and an
  unavailable age give \<open>-1\<close>.
\<close>

definition age_signal_spec :: "int option \<Rightarrow> int" where
  "age_signal_spec age =
     (case age of
        None \<Rightarrow> - 1
      | Some days \<Rightarrow> if days \<ge> 365 then 1 else if days \<ge> 180 then 0 else - 1)"

subsection \<open>The seven rules of the validator, in the words of the specification\<close>

text \<open>
  Rule \<open>n\<close> of the specification's section 4.1 on a URL and its parse; the host is
  the network location up to the first colon.
\<close>

definition rule_holds :: "nat \<Rightarrow> string \<Rightarrow> parse_result \<Rightarrow> bool" where
  "rule_holds n url p =
     (let host = takeWhile (\<lambda>c. c \<noteq> CHR '':'') (netloc p);
          labels = split_char CHR ''.'' host
      in if n = 1 then 4 \<le> length url
         else if n = 2 then scheme p \<noteq> [] \<and> (scheme p = ''http'' \<or> scheme p = ''https'')
         else if n = 3 then netloc p \<noteq> []
         else if n = 4 then CHR ''.'' \<in> set host \<and> \<not> startswith host ''.'' \<and>
                            \<not> endswith host ''.'' \<and> \<not> contains host ''..''
         else if n = 5 then list_all is_host_char host
         else if n = 6 then list_all (\<lambda>l. l \<noteq> []) labels
         else if n = 7 then list_all is_alpha (last labels) \<and> 2 \<le> length (last labels)
         else True)"

definition first_violated_rule :: "string \<Rightarrow> parse_result \<Rightarrow> nat option" where
  "first_violated_rule url p = find (\<lambda>n. \<not> rule_holds n url p) [1, 2, 3, 4, 5, 6, 7]"

text \<open>
  The rule a reason string of \<^verbatim>\<open>validate_url\<close> names.
\<close>

definition rule_of_reason :: "string \<Rightarrow> nat option" where
  "rule_of_reason r =
     (if r = ''URL is too short'' then Some 1
      else if r = ''Missing protocol (http:// or https://)'' \<or> startswith r ''Invalid protocol: ''
        then Some 2
      else if r = ''Invalid URL format. Missing domain'' then Some 3
      else if r = ''Invalid domain. Must have at least one dot'' \<or> r = ''Invalid domain format''
        then Some 4
      else if r = ''Domain contains invalid characters'' then Some 5
      else if r = ''Invalid domain structure'' then Some 6
      else if startswith r ''Invalid TLD: .'' then Some 7
      else None)"

text \<open>
  A result of \<^verbatim>\<open>validate_url\<close> that agrees with the first violated rule \<open>fv\<close>: valid
  exactly when no rule is violated, and otherwise a reason that names that rule.
\<close>

definition decided :: "error + (bool \<times> string) \<Rightarrow> nat option \<Rightarrow> bool" where
  "decided v fv =
     (\<exists>valid reason. v = Inr (valid, reason) \<and> (valid \<longleftrightarrow> fv = None) \<and>
        (valid \<longrightarrow> reason = ''Valid URL'') \<and> (\<not> valid \<longrightarrow> rule_of_reason reason = fv))"

subsection \<open>Example environments\<close>

text \<open>
  What CPython's \<^verbatim>\<open>urlparse\<close> returns on the URLs of the examples below
  (\<^verbatim>\<open>'http://['\<close> raises \<^verbatim>\<open>ValueError('Invalid IPv6 URL')\<close>, the scheme comes back in
  lower case), and what \<^verbatim>\<open>tldextract\<close> returns on their hosts. The last branch
  stands for a string without scheme and network location, such as
  \<^verbatim>\<open>'not a url'\<close>; the examples use no other string.
\<close>

definition urlparse_fixture :: "string \<Rightarrow> error + parse_result" where
  "urlparse_fixture u =
     (if u = ''http://['' then Inl (ValueError ''Invalid IPv6 URL'')
      else if u = ''http://good.example.com'' then
        Inr \<lparr>scheme = ''http'', netloc = ''good.example.com'', path = ''''\<rparr>
      else if u = ''http://bit.ly/xyz'' then
        Inr \<lparr>scheme = ''http'', netloc = ''bit.ly'', path = ''/xyz''\<rparr>
      else if u = ''http://example.com'' then
        Inr \<lparr>scheme = ''http'', netloc = ''example.com'', path = ''''\<rparr>
      else if u = ''https://example.com'' then
        Inr \<lparr>scheme = ''https'', netloc = ''example.com'', path = ''''\<rparr>
      else if u = ''HTTPS://example.com'' then
        Inr \<lparr>scheme = ''https'', netloc = ''example.com'', path = ''''\<rparr>
      else if u = ''https://cdn.other.net/f.ico'' then
        Inr \<lparr>scheme = ''https'', netloc = ''cdn.other.net'', path = ''/f.ico''\<rparr>
      else Inr \<lparr>scheme = '''', netloc = '''', path = u\<rparr>)"

definition tldextract_fixture :: "string \<Rightarrow> extract_result" where
  "tldextract_fixture h =
     (if h = ''good.example.com'' then \<lparr>registered_domain = ''example.com'', subdomain = ''good''\<rparr>
      else if h = ''example.com'' then \<lparr>registered_domain = ''example.com'', subdomain = ''''\<rparr>
      else if h = ''bit.ly'' then \<lparr>registered_domain = ''bit.ly'', subdomain = ''''\<rparr>
      else if h = ''cdn.other.net'' then \<lparr>registered_domain = ''other.net'', subdomain = ''cdn''\<rparr>
      else \<lparr>registered_domain = '''', subdomain = ''''\<rparr>)"

text \<open>
  A machine without network libraries: \<^verbatim>\<open>requests\<close>, \<^verbatim>\<open>whois\<close> and \<^verbatim>\<open>dns\<close>
  failed to import. The clock reads 2026-11-04 12:00:00 in microseconds.
\<close>

definition offline_env :: env where
  "offline_env = \<lparr>
     urlparse = urlparse_fixture,
     tldextract = tldextract_fixture,
     requests_available = False,
     requests_get = (\<lambda>u. Inl (LibraryError ''ConnectionError'')),
     whois_available = False,
     whois_lookup = (\<lambda>d. Inl (LibraryError ''WhoisError'')),
     datetime_now = 1793793600000000,
     datetime_utcnow = 1793793600000000,
     tls_getpeercert = (\<lambda>h. Inl (LibraryError ''timed out'')),
     strptime = (\<lambda>s. Inl (ValueError ''time data does not match format'')),
     dns_available = False,
     dns_resolve = (\<lambda>d. Inl (LibraryError ''NXDOMAIN'')),
     re_search = (\<lambda>p h. None),
     re_findall = (\<lambda>p h. []),
     float_of_str = (\<lambda>s. None)\<rparr>"

text \<open>
  Two pages, and a network on which \<^verbatim>\<open>example.com\<close> serves them: the first has no
  \<^verbatim>\<open>link\<close> element, the second names a favicon on another domain. The certificate of
  \<^verbatim>\<open>example.com\<close> expires 400 days after the clock's reading; the domain was
  registered on 1995-08-14, reported here as a naive date. \<open>re_search\<close> and \<open>re_findall\<close> answer as the regular
  expressions do on these two pages.
\<close>

definition page_plain :: string where
  "page_plain = ''<html><head><title>Example</title></head><body><p>Hello</p></body></html>''"

definition page_icon :: string where
  "page_icon = ''<html><head><link rel=icon href='' @ [CHR 0x22] @ ''https://cdn.other.net/f.ico''
      @ [CHR 0x22] @ ''></head><body><p>Hello</p></body></html>''"

definition online_env :: env where
  "online_env = offline_env\<lparr>
     requests_available := True,
     requests_get := (\<lambda>u.
        if u = ''http://example.com'' then Inr \<lparr>status_code = 200, text_of = Inr page_plain\<rparr>
        else if u = ''https://example.com'' then Inr \<lparr>status_code = 200, text_of = Inr page_icon\<rparr>
        else Inl (LibraryError ''ConnectionError'')),
     whois_available := True,
     whois_lookup := (\<lambda>d.
        if d = ''example.com'' then Inr (Multiple [DateTime 808372800000000])
        else Inl (LibraryError ''WhoisError'')),
     tls_getpeercert := (\<lambda>h.
        if h = ''example.com'' then Inr [''notAfter'' \<mapsto> ''Dec  9 12:00:00 2027 GMT'']
        else Inl (LibraryError ''timed out'')),
     strptime := (\<lambda>s.
        if s = ''Dec  9 12:00:00 2027 GMT'' then Inr 1828353600000000
        else Inl (ValueError ''time data does not match format'')),
     dns_available := True,
     dns_resolve := (\<lambda>d. if d = ''example.com'' then Inr () else Inl (LibraryError ''NXDOMAIN'')),
     re_search := (\<lambda>p h.
        if h = page_icon \<and> (p = FaviconLink \<or> p = ResourceRef \<or> p = TagRef)
        then Some ''https://cdn.other.net/f.ico'' else None),
     re_findall := (\<lambda>p h.
        if h = page_icon \<and> (p = FaviconLink \<or> p = ResourceRef \<or> p = TagRef)
        then [''https://cdn.other.net/f.ico''] else [])\<rparr>"

text \<open>
  The same network with the creation date of \<^verbatim>\<open>example.com\<close> as the WHOIS library
  reports it when it returns timezone-aware dates: 1995-08-14 04:00:00 UTC.
\<close>

definition aware_env :: env where
  "aware_env = online_env\<lparr>
     whois_lookup := (\<lambda>d.
        if d = ''example.com'' then Inr (Multiple [AwareDateTime 808372800000000])
        else Inl (LibraryError ''WhoisError''))\<rparr>"

subsection \<open>Basic facts\<close>

lemma split_char_nonempty: "split_char c s \<noteq> []"
  by (induction s) (auto split: list.splits)

subsection \<open>Signals stay in range\<close>

lemma signals_empty: "signals Map.empty"
  by (simp add: signals_def)

lemma signals_upd: "signals m \<Longrightarrow> is_signal v \<Longrightarrow> signals (m(k \<mapsto> v))"
  by (simp add: signals_def)

lemma is_signal_simps [simp]: "is_signal (- 1)" "is_signal 0" "is_signal 1"
  by (simp_all add: is_signal_def)

lemma is_signal_if: "is_signal a \<Longrightarrow> is_signal b \<Longrightarrow> is_signal (if c then a else b)"
  by simp

lemma fetch_content_total: "\<exists>r. fetch_content env url = Inr r"
  by (simp add: fetch_content_def split: sum.splits)

lemma check_ssl_signal: "check_ssl env url host = Inr v \<Longrightarrow> is_signal v"
  by (auto simp: check_ssl_def check_ssl_try_def Let_def split: if_splits sum.splits option.splits)

lemma check_dns_signal: "check_dns env domain = Inr v \<Longrightarrow> is_signal v"
  by (auto simp: check_dns_def split: if_splits sum.splits)

lemma age_val_of_signal: "is_signal (age_val_of d)"
  by (simp add: age_val_of_def)

lemma favicon_signal_signal: "favicon_signal env domain html = Inr v \<Longrightarrow> is_signal v"
  by (auto simp: favicon_signal_def Let_def split: option.splits sum.splits if_splits)

lemma url_features_signals:
  "is_signal ssl \<Longrightarrow> is_signal age_val \<Longrightarrow> is_signal dns \<Longrightarrow>
   signals (url_features url parsed host sub ssl age_val dns)"
  unfolding url_features_def Let_def
  by (intro signals_upd signals_empty is_signal_if is_signal_simps)

lemma url_features_dom:
  "dom (url_features url parsed host sub ssl age_val dns) =
     {''having_IP_Address'', ''URL_Length'', ''Shortining_Service'', ''having_At_Symbol'',
      ''double_slash_redirecting'', ''Prefix_Suffix'', ''having_Sub_Domain'', ''SSLfinal_State'',
      ''Domain_registeration_length'', ''age_of_domain'', ''port'', ''HTTPS_token'', ''DNSRecord''}"
  unfolding url_features_def Let_def by (simp only: dom_fun_upd option.simps if_False dom_empty) auto

lemma bucket_signal: "is_signal (if a then 1 else (if b then 0 else - 1))"
  by simp

lemma flag_signal: "is_signal (if a then - 1 else 1)"
  by simp

lemma html_features_shape:
  assumes "html_features env domain status html fs = Inr fs'"
  shows "\<exists>v1 v2 v3 v4 v5 v6 v7 v8 v9 v10.
     is_signal v1 \<and> is_signal v2 \<and> is_signal v3 \<and> is_signal v4 \<and> is_signal v5 \<and>
     is_signal v6 \<and> is_signal v7 \<and> is_signal v8 \<and> is_signal v9 \<and> is_signal v10 \<and>
     fs' = fs(''Favicon'' \<mapsto> v1, ''Request_URL'' \<mapsto> v2, ''URL_of_Anchor'' \<mapsto> v3,
              ''Links_in_tags'' \<mapsto> v4, ''SFH'' \<mapsto> v5, ''Submitting_to_email'' \<mapsto> v6,
              ''on_mouseover'' \<mapsto> v7, ''RightClick'' \<mapsto> v8, ''popUpWidnow'' \<mapsto> v9,
              ''Iframe'' \<mapsto> v10)"
proof (cases "html \<noteq> [] \<and> status = Some 200")
  case False
  with assms have "fs' = fs(''Favicon'' \<mapsto> - 1, ''Request_URL'' \<mapsto> - 1, ''URL_of_Anchor'' \<mapsto> - 1,
              ''Links_in_tags'' \<mapsto> - 1, ''SFH'' \<mapsto> - 1, ''Submitting_to_email'' \<mapsto> 0,
              ''on_mouseover'' \<mapsto> 0, ''RightClick'' \<mapsto> 0, ''popUpWidnow'' \<mapsto> 0,
              ''Iframe'' \<mapsto> 0)"
    unfolding html_features_def by (simp only: if_False sum.inject)
  then show ?thesis using is_signal_simps by blast
next
  case True
  from assms True obtain fav where fav: "favicon_signal env domain html = Inr fav"
    unfolding html_features_def by (cases "favicon_signal env domain html") simp_all
  from assms True fav obtain c1 where c1:
    "count_where (is_external env domain) (re_findall env ResourceRef html) = Inr c1"
    unfolding html_features_def Let_def
    by (cases "count_where (is_external env domain) (re_findall env ResourceRef html)") simp_all
  from assms True fav c1 obtain c2 where c2:
    "count_where (is_suspicious_anchor env domain) (re_findall env AnchorHref html) = Inr c2"
    unfolding html_features_def Let_def
    by (cases "count_where (is_suspicious_anchor env domain) (re_findall env AnchorHref html)") simp_all
  from assms True fav c1 c2 obtain c3 where c3:
    "count_where (is_external env domain) (re_findall env TagRef html) = Inr c3"
    unfolding html_features_def Let_def
    by (cases "count_where (is_external env domain) (re_findall env TagRef html)") simp_all
  from assms True fav c1 c2 c3 have "fs' = fs(
      ''Favicon'' \<mapsto> fav,
      ''Request_URL'' \<mapsto> (if percent c1 (length (re_findall env ResourceRef html)) < 22 then 1
          else (if percent c1 (length (re_findall env ResourceRef html)) \<le> 61 then 0 else - 1)),
      ''URL_of_Anchor'' \<mapsto> (if percent c2 (length (re_findall env AnchorHref html)) < 31 then 1
          else (if percent c2 (length (re_findall env AnchorHref html)) \<le> 67 then 0 else - 1)),
      ''Links_in_tags'' \<mapsto> (if percent c3 (length (re_findall env TagRef html)) < 17 then 1
          else (if percent c3 (length (re_findall env TagRef html)) \<le> 81 then 0 else - 1)),
      ''SFH'' \<mapsto> (if list_ex (\<lambda>f. f = [] \<or> contains (lower f) ''about:blank'')
                         (re_findall env FormAction html) then - 1 else 1),
      ''Submitting_to_email'' \<mapsto> (if re_search env Mailto html \<noteq> None then - 1 else 1),
      ''on_mouseover'' \<mapsto> (if re_search env OnMouseOver html \<noteq> None then - 1 else 1),
      ''RightClick'' \<mapsto> (if re_search env RightClickIdiom html \<noteq> None then - 1 else 1),
      ''popUpWidnow'' \<mapsto> (if re_search env WindowOpen html \<noteq> None then - 1 else 1),
      ''Iframe'' \<mapsto> (if contains (lower html) ''<iframe'' then - 1 else 1))"
    unfolding html_features_def Let_def by (simp split del: if_split)
  then show ?thesis
    using favicon_signal_signal[OF fav] bucket_signal flag_signal by blast
qed

lemma html_features_signals:
  "html_features env domain status html fs = Inr fs' \<Longrightarrow> signals fs \<Longrightarrow> signals fs'"
  by (drule html_features_shape) (auto intro!: signals_upd)

lemma html_features_dom:
  "html_features env domain status html fs = Inr fs' \<Longrightarrow>
   dom fs' = dom fs \<union> {''Favicon'', ''Request_URL'', ''URL_of_Anchor'', ''Links_in_tags'', ''SFH'',
      ''Submitting_to_email'', ''on_mouseover'', ''RightClick'', ''popUpWidnow'', ''Iframe''}"
  by (drule html_features_shape) auto

lemma closing_features_signals: "signals fs \<Longrightarrow> signals (closing_features parsed domain status fs)"
  unfolding closing_features_def
  by (intro signals_upd is_signal_if is_signal_simps) (auto split: option.splits)

lemma closing_features_dom:
  "dom (closing_features parsed domain status fs) =
     dom fs \<union> {''Abnormal_URL'', ''Redirect'', ''web_traffic'', ''Page_Rank'', ''Google_Index'',
       ''Links_pointing_to_page'', ''Statistical_report'', ''Result''}"
  unfolding closing_features_def by auto

subsection \<open>The extraction, step by step\<close>

lemma extract_features_success:
  assumes "extract_features_from_url env url = Inr f"
  shows "\<exists>msg parsed status fetched ssl age_days dns fs.
      validate_url env url = Inr (True, msg) \<and> urlparse env url = Inr parsed \<and>
      fetch_content env url = Inr (status, fetched) \<and>
      check_ssl env url (host_of parsed) = Inr ssl \<and>
      get_domain_age env (registered_domain (tldextract env (host_of parsed))) = Inr age_days \<and>
      check_dns env (registered_domain (tldextract env (host_of parsed))) = Inr dns \<and>
      html_features env (registered_domain (tldextract env (host_of parsed))) status
         (case fetched of None \<Rightarrow> [] | Some h \<Rightarrow> h)
         (url_features url parsed (host_of parsed) (subdomain (tldextract env (host_of parsed)))
            ssl (age_val_of age_days) dns) = Inr fs \<and>
      f = closing_features parsed (registered_domain (tldextract env (host_of parsed))) status fs"
  using assms unfolding extract_features_from_url_def Let_def
  by (auto split: sum.splits prod.splits if_splits)

lemma closing_features_other:
  "k \<notin> {''Abnormal_URL'', ''Redirect'', ''web_traffic'', ''Page_Rank'', ''Google_Index'',
       ''Links_pointing_to_page'', ''Statistical_report'', ''Result''} \<Longrightarrow>
   closing_features parsed domain status fs k = fs k"
  by (simp add: closing_features_def)

lemma html_features_other:
  "html_features env domain status html fs = Inr fs' \<Longrightarrow>
   k \<notin> {''Favicon'', ''Request_URL'', ''URL_of_Anchor'', ''Links_in_tags'', ''SFH'',
      ''Submitting_to_email'', ''on_mouseover'', ''RightClick'', ''popUpWidnow'', ''Iframe''} \<Longrightarrow>
   fs' k = fs k"
  by (drule html_features_shape) auto

lemma url_features_age:
  "url_features url parsed host sub ssl age_val dns ''Domain_registeration_length'' = Some age_val"
  "url_features url parsed host sub ssl age_val dns ''age_of_domain'' = Some age_val"
  by (simp_all add: url_features_def Let_def split del: if_split)

lemma url_features_shortener:
  "url_features url parsed host sub ssl age_val dns ''Shortining_Service'' =
     Some (if list_ex (\<lambda>s. contains (lower host) s) SHORTENERS then - 1 else 1)"
  by (simp add: url_features_def Let_def split del: if_split)

lemma distinct_COLUMNS: "distinct COLUMNS"
  unfolding COLUMNS_def by code_simp

lemma extract_features_dom:
  assumes "extract_features_from_url env url = Inr f"
  shows "dom f = set COLUMNS"
proof -
  from extract_features_success[OF assms] obtain parsed status html d host sub ssl age_val dns fs where
    h: "html_features env d status html (url_features url parsed host sub ssl age_val dns) = Inr fs" and
    f: "f = closing_features parsed d status fs"
    by blast
  have "dom f = dom (url_features url parsed host sub ssl age_val dns) \<union>
      {''Favicon'', ''Request_URL'', ''URL_of_Anchor'', ''Links_in_tags'', ''SFH'',
      ''Submitting_to_email'', ''on_mouseover'', ''RightClick'', ''popUpWidnow'', ''Iframe''}
      \<union> {''Abnormal_URL'', ''Redirect'', ''web_traffic'', ''Page_Rank'', ''Google_Index'',
       ''Links_pointing_to_page'', ''Statistical_report'', ''Result''}"
    unfolding f closing_features_dom html_features_dom[OF h] ..
  also have "\<dots> = set COLUMNS"
    unfolding url_features_dom COLUMNS_def by auto
  finally show ?thesis .
qed

lemma extract_features_signals:
  assumes "extract_features_from_url env url = Inr f"
  shows "signals f"
proof -
  from extract_features_success[OF assms] obtain parsed status html d host sub ssl age_days dns fs where
    ssl: "check_ssl env url host = Inr ssl" and
    dns: "check_dns env d = Inr dns" and
    h: "html_features env d status html (url_features url parsed host sub ssl (age_val_of age_days) dns) = Inr fs" and
    f: "f = closing_features parsed d status fs"
    by blast
  have "signals (url_features url parsed host sub ssl (age_val_of age_days) dns)"
    by (rule url_features_signals[OF check_ssl_signal[OF ssl] age_val_of_signal check_dns_signal[OF dns]])
  from html_features_signals[OF h this] show ?thesis
    unfolding f by (rule closing_features_signals)
qed

subsection \<open>The WHOIS age\<close>

lemma get_domain_age_whois_age:
  "\<not> creation_date_aware env domain \<Longrightarrow>
   get_domain_age env domain = Inr (case whois_age_spec env domain of None \<Rightarrow> - 1 | Some a \<Rightarrow> a)"
  by (simp add: get_domain_age_def get_domain_age_try_def whois_age_spec_def first_creation_date_def
      creation_date_aware_def
      split: sum.splits creation_date.splits date_value.splits list.splits)

lemma get_domain_age_aware:
  "creation_date_aware env domain \<Longrightarrow> get_domain_age env domain = Inr (- 1)"
  by (simp add: get_domain_age_def get_domain_age_try_def creation_date_aware_def
      split: sum.splits date_value.splits)

lemma get_domain_age_total: "\<exists>days. get_domain_age env domain = Inr days"
  by (simp add: get_domain_age_def split: sum.splits option.splits)

lemma age_val_of_spec:
  "age_val_of (case a of None \<Rightarrow> - 1 | Some d \<Rightarrow> d) = age_signal_spec a"
  by (simp add: age_val_of_def age_signal_spec_def split: option.splits)

lemma extract_features_url_signal:
  assumes "extract_features_from_url env url = Inr f"
    and "urlparse env url = Inr parsed"
    and "k \<in> {''Shortining_Service'', ''Domain_registeration_length'', ''age_of_domain''}"
  shows "\<exists>ssl age_days dns.
     get_domain_age env (registered_domain (tldextract env (host_of parsed))) = Inr age_days \<and>
     f k =
     url_features url parsed (host_of parsed) (subdomain (tldextract env (host_of parsed))) ssl
       (age_val_of age_days) dns k"
proof -
  from extract_features_success[OF assms(1)] assms(2) obtain status html ssl age_days dns fs where
    a: "get_domain_age env (registered_domain (tldextract env (host_of parsed))) = Inr age_days" and
    h: "html_features env (registered_domain (tldextract env (host_of parsed))) status html
         (url_features url parsed (host_of parsed) (subdomain (tldextract env (host_of parsed)))
            ssl (age_val_of age_days) dns) = Inr fs" and
    f: "f = closing_features parsed (registered_domain (tldextract env (host_of parsed))) status fs"
    by auto
  from assms(3) have "f k = url_features url parsed (host_of parsed) (subdomain (tldextract env (host_of parsed)))
            ssl (age_val_of age_days) dns k"
    unfolding f by (auto simp: closing_features_other html_features_other[OF h])
  with a show ?thesis by blast
qed

text \<open>
  What the code does with the age on every input. With a creation date that is not
  timezone-aware, both age signals hold the bucket of the WHOIS age, and \<open>-1\<close> when it
  is unavailable; with a timezone-aware one both are \<open>-1\<close>, whatever the age.
\<close>

lemma age_signals_of_extraction:
  assumes "extract_features_from_url env url = Inr features"
    and "urlparse env url = Inr parsed"
    and "domain = registered_domain (tldextract env (host_of parsed))"
  shows "features ''Domain_registeration_length'' =
           Some (if creation_date_aware env domain then - 1
                 else age_signal_spec (whois_age_spec env domain)) \<and>
         features ''age_of_domain'' =
           Some (if creation_date_aware env domain then - 1
                 else age_signal_spec (whois_age_spec env domain))"
proof -
  define bucket where "bucket =
      (if creation_date_aware env domain then - 1
       else age_signal_spec (whois_age_spec env domain))"
  have v: "age_val_of age_days = bucket"
    if "get_domain_age env domain = Inr age_days" for age_days
  proof (cases "creation_date_aware env domain")
    case True
    with that get_domain_age_aware[OF True] show ?thesis
      by (simp add: age_val_of_def bucket_def)
  next
    case False
    from that get_domain_age_whois_age[OF False]
    have "age_days = (case whois_age_spec env domain of None \<Rightarrow> - 1 | Some a \<Rightarrow> a)"
      by simp
    with False show ?thesis
      by (simp only: age_val_of_spec bucket_def if_False)
  qed
  from extract_features_url_signal[OF assms(1,2), of "''Domain_registeration_length''"]
  have 1: "features ''Domain_registeration_length'' = Some bucket"
    using v by (auto simp: url_features_age assms(3))
  from extract_features_url_signal[OF assms(1,2), of "''age_of_domain''"]
  have 2: "features ''age_of_domain'' = Some bucket"
    using v by (auto simp: url_features_age assms(3))
  from 1 2 show ?thesis unfolding bucket_def ..
qed

subsection \<open>The page signals\<close>

lemma html_features_default:
  assumes "html = [] \<or> status \<noteq> Some 200"
  shows "html_features env domain status html fs =
     Inr (fs(''Favicon'' \<mapsto> - 1, ''Request_URL'' \<mapsto> - 1, ''URL_of_Anchor'' \<mapsto> - 1,
              ''Links_in_tags'' \<mapsto> - 1, ''SFH'' \<mapsto> - 1, ''Submitting_to_email'' \<mapsto> 0,
              ''on_mouseover'' \<mapsto> 0, ''RightClick'' \<mapsto> 0, ''popUpWidnow'' \<mapsto> 0,
              ''Iframe'' \<mapsto> 0))"
  using assms unfolding html_features_def by (auto split del: if_split)

lemma html_features_favicon:
  assumes "html_features env domain status html fs = Inr fs'"
    and "html \<noteq> []" and "status = Some 200"
  shows "\<exists>fav. favicon_signal env domain html = Inr fav \<and> fs' ''Favicon'' = Some fav"
proof -
  from assms obtain fav where fav: "favicon_signal env domain html = Inr fav"
    unfolding html_features_def by (cases "favicon_signal env domain html") simp_all
  from assms fav obtain c1 where c1:
    "count_where (is_external env domain) (re_findall env ResourceRef html) = Inr c1"
    unfolding html_features_def Let_def
    by (cases "count_where (is_external env domain) (re_findall env ResourceRef html)") simp_all
  from assms fav c1 obtain c2 where c2:
    "count_where (is_suspicious_anchor env domain) (re_findall env AnchorHref html) = Inr c2"
    unfolding html_features_def Let_def
    by (cases "count_where (is_suspicious_anchor env domain) (re_findall env AnchorHref html)") simp_all
  from assms fav c1 c2 obtain c3 where c3:
    "count_where (is_external env domain) (re_findall env TagRef html) = Inr c3"
    unfolding html_features_def Let_def
    by (cases "count_where (is_external env domain) (re_findall env TagRef html)") simp_all
  from assms fav c1 c2 c3 have "fs' ''Favicon'' = Some fav"
    unfolding html_features_def Let_def by (auto split del: if_split)
  with fav show ?thesis by blast
qed

lemma extract_features_html_signal:
  assumes "extract_features_from_url env url = Inr f"
    and "urlparse env url = Inr parsed"
    and "fetch_content env url = Inr (status, fetched)"
    and "k \<in> {''Favicon'', ''Request_URL'', ''URL_of_Anchor'', ''Links_in_tags'', ''SFH'',
      ''Submitting_to_email'', ''on_mouseover'', ''RightClick'', ''popUpWidnow'', ''Iframe''}"
  shows "\<exists>fs0 fs. html_features env (registered_domain (tldextract env (host_of parsed))) status
            (case fetched of None \<Rightarrow> [] | Some h \<Rightarrow> h) fs0 = Inr fs \<and> f k = fs k"
proof -
  from extract_features_success[OF assms(1)] assms(2,3) obtain fs0 fs where
    h: "html_features env (registered_domain (tldextract env (host_of parsed))) status
         (case fetched of None \<Rightarrow> [] | Some h \<Rightarrow> h) fs0 = Inr fs" and
    f: "f = closing_features parsed (registered_domain (tldextract env (host_of parsed))) status fs"
    by auto
  from assms(4) have "f k = fs k"
    unfolding f by (auto simp: closing_features_other)
  with h show ?thesis by blast
qed

lemma html_features_without_page:
  assumes "html = [] \<or> status \<noteq> Some 200"
  shows "html_features (env\<lparr>re_search := s, re_findall := fa\<rparr>) domain status html fs =
         html_features env domain status html fs"
  by (simp add: html_features_default[OF assms])

lemma extract_without_page:
  assumes e: "extract_features_from_url env url = Inr features"
    and f: "fetch_content env url = Inr (status, fetched)"
    and c: "status \<noteq> Some 200 \<or> fetched = None \<or> fetched = Some []"
  shows "extract_features_from_url (env\<lparr>re_search := s, re_findall := fa\<rparr>) url = Inr features"
proof -
  from c have c': "(case fetched of None \<Rightarrow> [] | Some h \<Rightarrow> h) = [] \<or> status \<noteq> Some 200"
    by auto
  have 1: "validate_url (env\<lparr>re_search := s, re_findall := fa\<rparr>) url = validate_url env url"
    by (simp add: validate_url_def)
  have 2: "fetch_content (env\<lparr>re_search := s, re_findall := fa\<rparr>) url = fetch_content env url"
    by (simp add: fetch_content_def fetch_content_try_def)
  have 3: "check_ssl (env\<lparr>re_search := s, re_findall := fa\<rparr>) url h = check_ssl env url h" for h
    by (simp add: check_ssl_def check_ssl_try_def Let_def split: sum.splits option.splits)
  have 4: "get_domain_age (env\<lparr>re_search := s, re_findall := fa\<rparr>) d = get_domain_age env d" for d
    by (simp add: get_domain_age_def get_domain_age_try_def
        split: sum.splits option.splits date_value.splits)
  have 5: "check_dns (env\<lparr>re_search := s, re_findall := fa\<rparr>) d = check_dns env d" for d
    by (simp add: check_dns_def)
  from extract_features_success[OF e] f obtain msg parsed ssl age_days dns fs where
    v: "validate_url env url = Inr (True, msg)" and p: "urlparse env url = Inr parsed" and
    s: "check_ssl env url (host_of parsed) = Inr ssl" and
    a: "get_domain_age env (registered_domain (tldextract env (host_of parsed))) = Inr age_days" and
    d: "check_dns env (registered_domain (tldextract env (host_of parsed))) = Inr dns" and
    h: "html_features env (registered_domain (tldextract env (host_of parsed))) status
         (case fetched of None \<Rightarrow> [] | Some h \<Rightarrow> h)
         (url_features url parsed (host_of parsed) (subdomain (tldextract env (host_of parsed)))
            ssl (age_val_of age_days) dns) = Inr fs" and
    r: "features = closing_features parsed (registered_domain (tldextract env (host_of parsed))) status fs"
    by auto
  show ?thesis
    unfolding extract_features_from_url_def Let_def 1 2 3 4 5
    by (simp add: v p f s a d h r html_features_without_page[OF c'])
qed

subsection \<open>The batch\<close>

lemma clean_features_ints:
  "clean_features env (\<lambda>key. map_option IntV (f key)) = (\<lambda>key. map_option IntV (f key))"
  by (rule ext) (simp add: clean_features_def clean_value_def option.map_comp comp_def)

lemma process_url_features_None:
  "process_url_features env u = None \<longleftrightarrow> isl (extract_features_from_url env u)"
  by (simp add: process_url_features_def split: sum.splits)

lemma process_url_features_Some:
  assumes "extract_features_from_url env u = Inr f"
  shows "process_url_features env u = Some ((\<lambda>key. map_option IntV (f key))(''url'' \<mapsto> StrV u))"
  using assms by (simp add: process_url_features_def clean_features_ints)

lemma valid_features_filter:
  "map the (filter (\<lambda>f. f \<noteq> None) (map (process_url_features env) urls)) =
   map (\<lambda>u. the (process_url_features env u))
     (filter (\<lambda>u. \<not> isl (extract_features_from_url env u)) urls)"
  by (induction urls) (auto simp: process_url_features_def split: sum.splits)

lemma predict_multi_url_features_some:
  assumes "\<exists>u\<in>set urls. \<not> isl (extract_features_from_url env u)"
  shows "predict_multi_url_features env urls =
     Inr (map (\<lambda>u. the (process_url_features env u))
            (filter (\<lambda>u. \<not> isl (extract_features_from_url env u)) urls))"
proof -
  from assms have "filter (\<lambda>u. \<not> isl (extract_features_from_url env u)) urls \<noteq> []"
    by (simp add: filter_empty_conv)
  then show ?thesis
    unfolding predict_multi_url_features_def Let_def valid_features_filter by simp
qed

lemma predict_multi_url_features_none:
  assumes "\<forall>u\<in>set urls. isl (extract_features_from_url env u)"
  shows "predict_multi_url_features env urls =
     Inl (HTTPException 400 ''No valid features could be extracted from any of the URLs.'')"
proof -
  from assms have "filter (\<lambda>u. \<not> isl (extract_features_from_url env u)) urls = []"
    by (simp add: filter_empty_conv)
  then show ?thesis
    unfolding predict_multi_url_features_def Let_def valid_features_filter by simp
qed

lemma extract_not_a_url:
  assumes "urlparse env ''not a url'' = Inr \<lparr>scheme = '''', netloc = '''', path = ''not a url''\<rparr>"
  shows "extract_features_from_url env ''not a url'' =
           Inl (ValueError ''Invalid URL: Missing protocol (http:// or https://)'')"
  using assms by (simp add: extract_features_from_url_def validate_url_def)

lemma tagged_vector:
  assumes "\<not> isl (extract_features_from_url env u)"
  shows "\<exists>f. extract_features_from_url env u = Inr f \<and>
             the (process_url_features env u) ''url'' = Some (StrV u) \<and>
             (\<forall>k. k \<noteq> ''url'' \<longrightarrow> the (process_url_features env u) k = map_option IntV (f k))"
proof -
  from assms obtain f where f: "extract_features_from_url env u = Inr f"
    by (cases "extract_features_from_url env u") simp_all
  show ?thesis unfolding process_url_features_Some[OF f] using f by simp
qed

subsection \<open>The probes and the validator on every input\<close>

lemma hd_split_char: "hd (split_char c s) = takeWhile (\<lambda>x. x \<noteq> c) s"
  by (induction s) (auto split: list.splits simp: split_char_nonempty)

lemma set_last_split_char: "set (last (split_char c s)) \<subseteq> set s"
  by (induction s) (auto split: list.splits simp: split_char_nonempty)

lemma strip_final_newline_id: "CHR 0x0A \<notin> set s \<Longrightarrow> strip_final_newline s = s"
  by (auto simp: strip_final_newline_def dest: last_in_set)

lemma validate_url_short:
  "length url < 4 \<Longrightarrow> validate_url env url = Inr (False, ''URL is too short'')"
  by (simp add: validate_url_def)

lemma rule_of_reason_simps:
  "rule_of_reason ''URL is too short'' = Some 1"
  "rule_of_reason ''Missing protocol (http:// or https://)'' = Some 2"
  "rule_of_reason (''Invalid protocol: '' @ s) = Some 2"
  "rule_of_reason ''Invalid URL format. Missing domain'' = Some 3"
  "rule_of_reason ''Invalid domain. Must have at least one dot'' = Some 4"
  "rule_of_reason ''Invalid domain format'' = Some 4"
  "rule_of_reason ''Domain contains invalid characters'' = Some 5"
  "rule_of_reason ''Invalid domain structure'' = Some 6"
  "rule_of_reason (''Invalid TLD: .'' @ s) = Some 7"
  by (simp_all add: rule_of_reason_def)

lemma validate_url_raises_iff:
  "validate_url env url = Inl e \<longleftrightarrow> 4 \<le> length url \<and> urlparse env url = Inl e"
  by (auto simp: validate_url_def Let_def split: sum.splits if_splits)

lemma check_ssl_policy:
  "\<exists>v. check_ssl env url host = Inr v"
  "\<not> startswith url ''https'' \<Longrightarrow> check_ssl env url host = Inr (- 1)"
  "startswith url ''https'' \<Longrightarrow> check_ssl_try env host = Inl e \<Longrightarrow>
     check_ssl env url host = Inr (- 1)"
  "startswith url ''https'' \<Longrightarrow> tls_getpeercert env host = Inr cert \<Longrightarrow>
     cert ''notAfter'' = Some not_after \<Longrightarrow> not_after \<noteq> [] \<Longrightarrow>
     strptime env not_after = Inr expiry \<Longrightarrow>
     d = timedelta_days (expiry - datetime_utcnow env) \<Longrightarrow>
     check_ssl env url host = Inr (if d > 365 then 1 else if d > 30 then 0 else - 1)"
  by (auto simp: check_ssl_def check_ssl_try_def Let_def split: sum.splits option.splits)

lemma decided_step:
  assumes "decided v fv" and "rule_of_reason m = Some n"
  shows "decided (if c then Inr (False, m) else v) (if c then Some n else fv)"
  using assms by (simp add: decided_def)

lemma decided_valid: "decided (Inr (True, ''Valid URL'')) None"
  by (auto simp: decided_def)

lemma validate_url_first_violation:
  assumes p: "urlparse env url = Inr p" and nl: "CHR 0x0A \<notin> set (netloc p)"
  shows "decided (validate_url env url) (first_violated_rule url p)"
proof -
  define host where "host = takeWhile (\<lambda>c. c \<noteq> CHR '':'') (netloc p)"
  define labels where "labels = split_char CHR ''.'' host"
  have h: "hd (split_char CHR '':'' (netloc p)) = host"
    by (simp add: hd_split_char host_def)
  from nl have nlh: "CHR 0x0A \<notin> set host"
    unfolding host_def by (auto dest: set_takeWhileD)
  with set_last_split_char[of "CHR ''.''" host] have nlt: "CHR 0x0A \<notin> set (last labels)"
    unfolding labels_def by blast
  have mh: "match_host_chars host \<longleftrightarrow> host \<noteq> [] \<and> list_all is_host_char host"
    by (simp add: match_host_chars_def Let_def strip_final_newline_id[OF nlh])
  have mt: "match_tld (last labels) \<longleftrightarrow> 2 \<le> length (last labels) \<and> list_all is_alpha (last labels)"
    by (simp add: match_tld_def Let_def strip_final_newline_id[OF nlt])
  have ex: "list_ex (\<lambda>part. length part = 0) labels \<longleftrightarrow> \<not> list_all (\<lambda>l. l \<noteq> []) labels"
    by (simp add: list_ex_iff list_all_iff)
  define R1 where "R1 = rule_holds 1 url p"
  define R2 where "R2 = rule_holds 2 url p"
  define R3 where "R3 = rule_holds 3 url p"
  define R4 where "R4 = rule_holds 4 url p"
  define R5 where "R5 = rule_holds 5 url p"
  define R6 where "R6 = rule_holds 6 url p"
  define R7 where "R7 = rule_holds 7 url p"
  have r1: "R1 = (4 \<le> length url)"
    and r2: "R2 = (scheme p \<noteq> [] \<and> (scheme p = ''http'' \<or> scheme p = ''https''))"
    and r3: "R3 = (netloc p \<noteq> [])"
    and r4: "R4 = (CHR ''.'' \<in> set host \<and> \<not> startswith host ''.'' \<and>
                   \<not> endswith host ''.'' \<and> \<not> contains host ''..'')"
    and r5: "R5 = list_all is_host_char host"
    and r6: "R6 = list_all (\<lambda>l. l \<noteq> []) labels"
    and r7: "R7 = (list_all is_alpha (last labels) \<and> 2 \<le> length (last labels))"
    by (simp_all add: R1_def R2_def R3_def R4_def R5_def R6_def R7_def
          rule_holds_def host_def labels_def Let_def)
  have fv: "first_violated_rule url p =
      (if \<not> R1 then Some 1 else if \<not> R2 then Some 2 else if \<not> R3 then Some 3
       else if \<not> R4 then Some 4 else if \<not> R5 then Some 5 else if \<not> R6 then Some 6
       else if \<not> R7 then Some 7 else None)"
    unfolding first_violated_rule_def R1_def R2_def R3_def R4_def R5_def R6_def R7_def
    by (simp only: find.simps)
  define T7 where "T7 =
      (if \<not> match_tld (last labels) then Inr (False, ''Invalid TLD: .'' @ last labels)
       else Inr (True, ''Valid URL'') :: error + (bool \<times> string))"
  define T6 where "T6 =
      (if list_ex (\<lambda>part. length part = 0) labels then Inr (False, ''Invalid domain structure'')
       else T7)"
  define T5 where "T5 =
      (if \<not> match_host_chars host then Inr (False, ''Domain contains invalid characters'')
       else T6)"
  define T4 where "T4 =
      (if host = [] \<or> count_list host CHR ''.'' < 1 then
         Inr (False, ''Invalid domain. Must have at least one dot'')
       else if startswith host ''.'' \<or> endswith host ''.'' \<or> contains host ''..'' then
         Inr (False, ''Invalid domain format'')
       else T5)"
  define T3 where "T3 =
      (if netloc p = [] then Inr (False, ''Invalid URL format. Missing domain'') else T4)"
  define T2 where "T2 =
      (if scheme p = [] then Inr (False, ''Missing protocol (http:// or https://)'')
       else if scheme p \<notin> set [''http'', ''https''] then
         Inr (False, ''Invalid protocol: '' @ scheme p)
       else T3)"
  define T1 where "T1 =
      (if url = [] \<or> length url < 4 then Inr (False, ''URL is too short'') else T2)"
  have v: "validate_url env url = T1"
    unfolding validate_url_def T1_def T2_def T3_def T4_def T5_def T6_def T7_def Let_def p h
      labels_def[symmetric] sum.case
    by (rule refl)
  define F7 where "F7 = (if \<not> R7 then Some (7::nat) else None)"
  define F6 where "F6 = (if \<not> R6 then Some 6 else F7)"
  define F5 where "F5 = (if \<not> R5 then Some 5 else F6)"
  define F4 where "F4 = (if \<not> R4 then Some 4 else F5)"
  define F3 where "F3 = (if \<not> R3 then Some 3 else F4)"
  define F2 where "F2 = (if \<not> R2 then Some 2 else F3)"
  have d7: "decided T7 F7"
  proof -
    have "F7 = (if \<not> match_tld (last labels) then Some 7 else None)"
      unfolding F7_def r7 mt by (simp add: conj_commute)
    then show ?thesis
      unfolding T7_def by (simp only: decided_step[OF decided_valid rule_of_reason_simps(9)])
  qed
  have d6: "decided T6 F6"
  proof -
    have "F6 = (if list_ex (\<lambda>part. length part = 0) labels then Some 6 else F7)"
      unfolding F6_def r6 ex by simp
    then show ?thesis
      unfolding T6_def by (simp only: decided_step[OF d7 rule_of_reason_simps(8)])
  qed
  define T5' where "T5' =
      (if \<not> list_all is_host_char host then Inr (False, ''Domain contains invalid characters'')
       else T6)"
  have d5: "decided T5' F5"
  proof -
    have "F5 = (if \<not> list_all is_host_char host then Some 5 else F6)"
      unfolding F5_def r5 by simp
    then show ?thesis
      unfolding T5'_def by (simp only: decided_step[OF d6 rule_of_reason_simps(7)])
  qed
  define c4a where "c4a = (host = [] \<or> count_list host CHR ''.'' < 1)"
  define c4b where "c4b = (startswith host ''.'' \<or> endswith host ''.'' \<or> contains host ''..'')"
  have c4a: "c4a \<longleftrightarrow> CHR ''.'' \<notin> set host"
    unfolding c4a_def by (auto simp: count_list_0_iff)
  have t5: "\<not> c4a \<Longrightarrow> T5 = T5'"
    unfolding T5_def T5'_def mh c4a by auto
  have t4: "T4 = (if c4a then Inr (False, ''Invalid domain. Must have at least one dot'')
                  else if c4b then Inr (False, ''Invalid domain format'') else T5')"
    unfolding T4_def c4a_def[symmetric] c4b_def[symmetric] using t5 by simp
  have f4: "F4 = (if c4a then Some 4 else if c4b then Some 4 else F5)"
    unfolding F4_def r4 c4a c4b_def by auto
  have d4: "decided T4 F4"
    unfolding t4 f4
    by (intro decided_step d5 rule_of_reason_simps)
  have d3: "decided T3 F3"
  proof -
    have "F3 = (if netloc p = [] then Some 3 else F4)"
      unfolding F3_def r3 by simp
    then show ?thesis
      unfolding T3_def by (simp only: decided_step[OF d4 rule_of_reason_simps(4)])
  qed
  define c2b where "c2b = (scheme p \<notin> set [''http'', ''https''])"
  have f2: "F2 = (if scheme p = [] then Some 2 else if c2b then Some 2 else F3)"
    unfolding F2_def r2 c2b_def by auto
  have d2: "decided T2 F2"
    unfolding T2_def c2b_def[symmetric] f2
    by (intro decided_step d3 rule_of_reason_simps)
  define c1 where "c1 = (url = [] \<or> length url < 4)"
  have f1: "(if \<not> R1 then Some 1 else F2) = (if c1 then Some 1 else F2)"
    unfolding r1 c1_def by auto
  have d1: "decided T1 (if \<not> R1 then Some 1 else F2)"
    unfolding T1_def c1_def[symmetric] f1
    by (intro decided_step d2 rule_of_reason_simps)
  have "first_violated_rule url p = (if \<not> R1 then Some 1 else F2)"
    unfolding fv F2_def F3_def F4_def F5_def F6_def F7_def ..
  with d1 v show ?thesis by simp
qed

subsection \<open>The example environments, evaluated\<close>

lemma offline_env_simps:
  "urlparse offline_env = urlparse_fixture"
  "tldextract offline_env = tldextract_fixture"
  "requests_available offline_env = False"
  "whois_available offline_env = False"
  "dns_available offline_env = False"
  "re_search offline_env = (\<lambda>p h. None)"
  "re_findall offline_env = (\<lambda>p h. [])"
  by (simp_all add: offline_env_def)

lemmas string_test_defs = endswith_def match_host_chars_def match_tld_def match_ip_def
  strip_final_newline_def is_host_char_def is_alpha_def is_digit_def lower_def lower_char_def

lemma validate_bitly: "validate_url offline_env ''http://bit.ly/xyz'' = Inr (True, ''Valid URL'')"
  by (simp add: validate_url_def offline_env_simps urlparse_fixture_def Let_def string_test_defs)

lemma extract_bitly: "\<exists>f. extract_features_from_url offline_env ''http://bit.ly/xyz'' = Inr f"
  by (simp add: extract_features_from_url_def validate_bitly offline_env_simps urlparse_fixture_def
      fetch_content_def check_ssl_def get_domain_age_def check_dns_def html_features_def Let_def)

lemma online_env_simps:
  "urlparse online_env = urlparse_fixture"
  "tldextract online_env = tldextract_fixture"
  "requests_available online_env = True"
  "requests_get online_env ''http://example.com'' = Inr \<lparr>status_code = 200, text_of = Inr page_plain\<rparr>"
  "requests_get online_env ''https://example.com'' = Inr \<lparr>status_code = 200, text_of = Inr page_icon\<rparr>"
  "whois_available online_env = True"
  "whois_lookup online_env ''example.com'' = Inr (Multiple [DateTime 808372800000000])"
  "datetime_now online_env = 1793793600000000"
  "datetime_utcnow online_env = 1793793600000000"
  "tls_getpeercert online_env ''example.com'' = Inr [''notAfter'' \<mapsto> ''Dec  9 12:00:00 2027 GMT'']"
  "strptime online_env ''Dec  9 12:00:00 2027 GMT'' = Inr 1828353600000000"
  "dns_available online_env = True"
  "dns_resolve online_env ''example.com'' = Inr ()"
  by (simp_all add: online_env_def offline_env_def)

lemma online_env_re:
  "re_search online_env p page_plain = None"
  "re_findall online_env p page_plain = []"
  "re_search online_env FaviconLink page_icon = Some ''https://cdn.other.net/f.ico''"
  "re_findall online_env ResourceRef page_icon = [''https://cdn.other.net/f.ico'']"
  "re_findall online_env AnchorHref page_icon = []"
  "re_findall online_env TagRef page_icon = [''https://cdn.other.net/f.ico'']"
  "re_findall online_env FormAction page_icon = []"
  by (simp_all add: online_env_def offline_env_def page_plain_def page_icon_def)

lemma page_lengths:
  "page_plain \<noteq> []" "page_icon \<noteq> []"
  "take 100000 page_plain = page_plain" "take 100000 page_icon = page_icon"
  by (simp_all add: page_plain_def page_icon_def)

lemma fetch_content_online:
  "fetch_content online_env ''http://example.com'' = Inr (Some 200, Some page_plain)"
  "fetch_content online_env ''https://example.com'' = Inr (Some 200, Some page_icon)"
  by (simp_all add: fetch_content_def fetch_content_try_def online_env_simps page_lengths)

lemma fetch_content_offline: "fetch_content offline_env url = Inr (None, None)"
  by (simp add: fetch_content_def offline_env_simps)

lemma validate_examples:
  "validate_url offline_env ''http://good.example.com'' = Inr (True, ''Valid URL'')"
  "validate_url online_env ''http://example.com'' = Inr (True, ''Valid URL'')"
  "validate_url online_env ''https://example.com'' = Inr (True, ''Valid URL'')"
  "validate_url online_env ''HTTPS://example.com'' = Inr (True, ''Valid URL'')"
  by (simp_all add: validate_url_def offline_env_simps online_env_simps urlparse_fixture_def Let_def
        string_test_defs)

lemma extract_good: "\<not> isl (extract_features_from_url offline_env ''http://good.example.com'')"
  by (simp add: extract_features_from_url_def validate_examples offline_env_simps urlparse_fixture_def
      fetch_content_def check_ssl_def get_domain_age_def check_dns_def html_features_def Let_def)

lemma extract_online_plain:
  "\<exists>f. extract_features_from_url online_env ''http://example.com'' = Inr f"
  by (simp add: extract_features_from_url_def validate_examples online_env_simps urlparse_fixture_def
      tldextract_fixture_def host_of_def fetch_content_online check_ssl_def get_domain_age_def
      get_domain_age_try_def first_creation_date_def check_dns_def html_features_def
      favicon_signal_def online_env_re page_lengths Let_def split del: if_split)

lemma aware_env_simps:
  "urlparse aware_env = urlparse_fixture"
  "tldextract aware_env = tldextract_fixture"
  "requests_available aware_env = True"
  "whois_available aware_env = True"
  "whois_lookup aware_env ''example.com'' = Inr (Multiple [AwareDateTime 808372800000000])"
  "datetime_now aware_env = 1793793600000000"
  "dns_available aware_env = True"
  "dns_resolve aware_env ''example.com'' = Inr ()"
  by (simp_all add: aware_env_def online_env_def offline_env_def)

lemma aware_env_page:
  "fetch_content aware_env ''http://example.com'' = Inr (Some 200, Some page_plain)"
  "re_search aware_env p page_plain = None"
  "re_findall aware_env p page_plain = []"
  "validate_url aware_env ''http://example.com'' = Inr (True, ''Valid URL'')"
proof -
  have r: "requests_get aware_env ''http://example.com'' =
      Inr \<lparr>status_code = 200, text_of = Inr page_plain\<rparr>"
    by (simp add: aware_env_def online_env_def)
  show "fetch_content aware_env ''http://example.com'' = Inr (Some 200, Some page_plain)"
    by (simp add: fetch_content_def fetch_content_try_def aware_env_simps r page_lengths)
  show "re_search aware_env p page_plain = None"
    by (simp add: aware_env_def online_env_def page_plain_def page_icon_def)
  show "re_findall aware_env p page_plain = []"
    by (simp add: aware_env_def online_env_def page_plain_def page_icon_def)
  show "validate_url aware_env ''http://example.com'' = Inr (True, ''Valid URL'')"
    by (simp add: validate_url_def aware_env_simps urlparse_fixture_def Let_def string_test_defs)
qed

lemma extract_aware:
  "\<exists>f. extract_features_from_url aware_env ''http://example.com'' = Inr f"
  by (simp add: extract_features_from_url_def aware_env_page aware_env_simps urlparse_fixture_def
      tldextract_fixture_def host_of_def check_ssl_def get_domain_age_def
      get_domain_age_try_def first_creation_date_def check_dns_def html_features_def
      favicon_signal_def page_lengths Let_def split del: if_split)

lemma check_ssl_online:
  "check_ssl online_env ''https://example.com'' ''example.com'' = Inr 1"
  "check_ssl online_env ''HTTPS://example.com'' ''example.com'' = Inr (- 1)"
  by (simp_all add: check_ssl_def check_ssl_try_def online_env_simps timedelta_days_def Let_def)

lemma is_external_cdn:
  "is_external online_env ''example.com'' ''https://cdn.other.net/f.ico'' = Inr True"
  by (simp add: is_external_def online_env_simps urlparse_fixture_def tldextract_fixture_def)

lemma extract_online_icon:
  "\<exists>f. extract_features_from_url online_env ''https://example.com'' = Inr f"
  by (simp add: extract_features_from_url_def validate_examples online_env_simps urlparse_fixture_def
      tldextract_fixture_def host_of_def fetch_content_online check_ssl_online get_domain_age_def
      get_domain_age_try_def first_creation_date_def check_dns_def html_features_def
      favicon_signal_def online_env_re page_lengths is_external_cdn Let_def split del: if_split)

lemma urlparse_examples:
  "urlparse online_env ''http://example.com'' =
      Inr \<lparr>scheme = ''http'', netloc = ''example.com'', path = ''''\<rparr>"
  "urlparse online_env ''https://example.com'' =
      Inr \<lparr>scheme = ''https'', netloc = ''example.com'', path = ''''\<rparr>"
  "urlparse online_env ''https://cdn.other.net/f.ico'' =
      Inr \<lparr>scheme = ''https'', netloc = ''cdn.other.net'', path = ''/f.ico''\<rparr>"
  "urlparse offline_env ''http://bit.ly/xyz'' =
      Inr \<lparr>scheme = ''http'', netloc = ''bit.ly'', path = ''/xyz''\<rparr>"
  "urlparse offline_env ''not a url'' = Inr \<lparr>scheme = '''', netloc = '''', path = ''not a url''\<rparr>"
  by (simp_all add: online_env_simps offline_env_simps urlparse_fixture_def)

subsection \<open>C1: the shape of the feature vector\<close>

text \<open>
  Claim C1. When \<^verbatim>\<open>extract_features_from_url\<close> succeeds, the returned dict has exactly
  the 31 entries of \<^verbatim>\<open>COLUMNS\<close> (the 30 signals and \<^verbatim>\<open>Result\<close>), and each of the 30
  signals is \<open>-1\<close>, \<open>0\<close> or \<open>1\<close>.
\<close>

theorem feature_vector_shape:
  assumes "extract_features_from_url env url = Inr features"
  shows "dom features = set COLUMNS \<and> card (dom features) = 31 \<and>
         (\<forall>k \<in> set MODEL_FEATURE_ORDER.
            features k = Some (- 1) \<or> features k = Some 0 \<or> features k = Some 1)"
proof -
  have d: "dom features = set COLUMNS" by (rule extract_features_dom[OF assms])
  have "card (set COLUMNS) = length COLUMNS" by (rule distinct_card[OF distinct_COLUMNS])
  then have c: "card (dom features) = 31" unfolding d by (simp add: COLUMNS_def)
  have sub: "set MODEL_FEATURE_ORDER \<subseteq> set COLUMNS"
    by (simp add: MODEL_FEATURE_ORDER_def COLUMNS_def)
  have "features k = Some (- 1) \<or> features k = Some 0 \<or> features k = Some 1"
    if "k \<in> set MODEL_FEATURE_ORDER" for k
  proof -
    from that sub d have "k \<in> dom features" by blast
    then obtain v where v: "features k = Some v" by blast
    with extract_features_signals[OF assms] have "is_signal v" by (simp add: signals_def)
    with v show ?thesis by (auto simp: is_signal_def)
  qed
  with d c show ?thesis by blast
qed

text \<open>
  The theorem at \<^verbatim>\<open>http://bit.ly/xyz\<close> on the machine without network libraries.
\<close>

theorem feature_vector_shape_witness:
  "\<exists>f. extract_features_from_url offline_env ''http://bit.ly/xyz'' = Inr f \<and>
       dom f = set COLUMNS \<and> card (dom f) = 31 \<and> 
       (f ''Shortining_Service'' = Some (- 1) \<or> f ''Shortining_Service'' = Some 0 \<or> f ''Shortining_Service'' = Some 1)"
proof -
  from extract_bitly obtain f where f: "extract_features_from_url offline_env ''http://bit.ly/xyz'' = Inr f" ..
  from feature_vector_shape[OF f] have a: "dom f = set COLUMNS" and c: "card (dom f) = 31"
    and s: "\<forall>k \<in> set MODEL_FEATURE_ORDER. f k = Some (- 1) \<or> f k = Some 0 \<or> f k = Some 1"
    by blast+
  from s have b: "f ''Shortining_Service'' = Some (- 1) \<or> f ''Shortining_Service'' = Some 0 \<or> f ''Shortining_Service'' = Some 1"
    by (simp add: MODEL_FEATURE_ORDER_def)
  note a c b
  with f show ?thesis by blast
qed

subsection \<open>C2: the page signals when no page was fetched\<close>

text \<open>
  Claim C2. When the fetch did not return status 200 with a body (no status, another
  status, no body or an empty body), a successful extraction gives \<^verbatim>\<open>Favicon\<close>,
  \<^verbatim>\<open>Request_URL\<close>, \<^verbatim>\<open>URL_of_Anchor\<close>, \<^verbatim>\<open>Links_in_tags\<close> and \<^verbatim>\<open>SFH\<close> the value \<open>-1\<close>
  and \<^verbatim>\<open>on_mouseover\<close>, \<^verbatim>\<open>RightClick\<close>, \<^verbatim>\<open>popUpWidnow\<close> and \<^verbatim>\<open>Iframe\<close> the value 0. The
  analysis of the page does not run: whatever the regular-expression scans would
  answer, the extraction returns the same dict.
\<close>

theorem html_signals_default_without_page:
  assumes "extract_features_from_url env url = Inr features"
    and "fetch_content env url = Inr (status, fetched)"
    and "status \<noteq> Some 200 \<or> fetched = None \<or> fetched = Some []"
  shows "features ''Favicon'' = Some (- 1) \<and> features ''Request_URL'' = Some (- 1) \<and>
         features ''URL_of_Anchor'' = Some (- 1) \<and> features ''Links_in_tags'' = Some (- 1) \<and>
         features ''SFH'' = Some (- 1) \<and>
         features ''on_mouseover'' = Some 0 \<and> features ''RightClick'' = Some 0 \<and>
         features ''popUpWidnow'' = Some 0 \<and> features ''Iframe'' = Some 0 \<and>
         (\<forall>search findall.
            extract_features_from_url (env\<lparr>re_search := search, re_findall := findall\<rparr>) url =
              Inr features)"
proof -
  from extract_features_success[OF assms(1)] obtain parsed where p: "urlparse env url = Inr parsed"
    by blast
  from assms(3) have c: "(case fetched of None \<Rightarrow> [] | Some h \<Rightarrow> h) = [] \<or> status \<noteq> Some 200"
    by auto
  have "features k = (if k \<in> {''Favicon'', ''Request_URL'', ''URL_of_Anchor'', ''Links_in_tags'', ''SFH''}
                      then Some (- 1) else Some 0)"
    if "k \<in> {''Favicon'', ''Request_URL'', ''URL_of_Anchor'', ''Links_in_tags'', ''SFH'',
      ''Submitting_to_email'', ''on_mouseover'', ''RightClick'', ''popUpWidnow'', ''Iframe''}" for k
  proof -
    from extract_features_html_signal[OF assms(1) p assms(2) that] obtain fs0 fs where
      h: "html_features env (registered_domain (tldextract env (host_of parsed))) status
            (case fetched of None \<Rightarrow> [] | Some h \<Rightarrow> h) fs0 = Inr fs" and fk: "features k = fs k"
      by blast
    from h have "fs = fs0(''Favicon'' \<mapsto> - 1, ''Request_URL'' \<mapsto> - 1, ''URL_of_Anchor'' \<mapsto> - 1,
              ''Links_in_tags'' \<mapsto> - 1, ''SFH'' \<mapsto> - 1, ''Submitting_to_email'' \<mapsto> 0,
              ''on_mouseover'' \<mapsto> 0, ''RightClick'' \<mapsto> 0, ''popUpWidnow'' \<mapsto> 0,
              ''Iframe'' \<mapsto> 0)"
      unfolding html_features_default[OF c] by simp
    with that fk show ?thesis by auto
  qed
  then have defaults:
    "features ''Favicon'' = Some (- 1) \<and> features ''Request_URL'' = Some (- 1) \<and>
     features ''URL_of_Anchor'' = Some (- 1) \<and> features ''Links_in_tags'' = Some (- 1) \<and>
     features ''SFH'' = Some (- 1) \<and>
     features ''on_mouseover'' = Some 0 \<and> features ''RightClick'' = Some 0 \<and>
     features ''popUpWidnow'' = Some 0 \<and> features ''Iframe'' = Some 0"
    by simp
  have "\<forall>search findall.
      extract_features_from_url (env\<lparr>re_search := search, re_findall := findall\<rparr>) url =
        Inr features"
    using extract_without_page[OF assms] by blast
  with defaults show ?thesis by (simp only: simp_thms)
qed

text \<open>
  The theorem at \<^verbatim>\<open>http://bit.ly/xyz\<close> on the machine without network libraries, where
  the fetch is unavailable.
\<close>

theorem html_signals_default_without_page_witness:
  "\<exists>f. extract_features_from_url offline_env ''http://bit.ly/xyz'' = Inr f \<and>
       fetch_content offline_env ''http://bit.ly/xyz'' = Inr (None, None) \<and>
       f ''Favicon'' = Some (- 1) \<and> f ''Request_URL'' = Some (- 1) \<and>
       f ''URL_of_Anchor'' = Some (- 1) \<and> f ''Links_in_tags'' = Some (- 1) \<and>
       f ''SFH'' = Some (- 1) \<and> f ''on_mouseover'' = Some 0 \<and> f ''RightClick'' = Some 0 \<and>
       f ''popUpWidnow'' = Some 0 \<and> f ''Iframe'' = Some 0 \<and>
       extract_features_from_url
         (offline_env\<lparr>re_search := (\<lambda>p h. Some ''x''), re_findall := (\<lambda>p h. [''x''])\<rparr>)
         ''http://bit.ly/xyz'' = Inr f"
proof -
  from extract_bitly obtain f where
    f: "extract_features_from_url offline_env ''http://bit.ly/xyz'' = Inr f" ..
  have c: "None \<noteq> Some (200::int) \<or> (None::string option) = None \<or> (None::string option) = Some []"
    by simp
  note t = html_signals_default_without_page[OF f fetch_content_offline c]
  from t have d: "f ''Favicon'' = Some (- 1) \<and> f ''Request_URL'' = Some (- 1) \<and>
       f ''URL_of_Anchor'' = Some (- 1) \<and> f ''Links_in_tags'' = Some (- 1) \<and>
       f ''SFH'' = Some (- 1) \<and> f ''on_mouseover'' = Some 0 \<and> f ''RightClick'' = Some 0 \<and>
       f ''popUpWidnow'' = Some 0 \<and> f ''Iframe'' = Some 0"
    by (simp only: simp_thms)
  from t have "\<forall>search findall.
      extract_features_from_url (offline_env\<lparr>re_search := search, re_findall := findall\<rparr>)
        ''http://bit.ly/xyz'' = Inr f"
    by (simp only: simp_thms)
  then have e: "extract_features_from_url
         (offline_env\<lparr>re_search := (\<lambda>p h. Some ''x''), re_findall := (\<lambda>p h. [''x''])\<rparr>)
         ''http://bit.ly/xyz'' = Inr f"
    by (elim allE)
  from f fetch_content_offline d e show ?thesis
    by (intro exI[of _ f]) (simp only: simp_thms)
qed

subsection \<open>C3: the favicon signal\<close>

text \<open>
  Claim C3 says that a page without a favicon link gets the \<^verbatim>\<open>Favicon\<close> signal 1. The
  code gives 0 there (line 209, commented as neutral): the page of
  \<^verbatim>\<open>http://example.com\<close> below is fetched with status 200, has no \<^verbatim>\<open>link\<close> element,
  and its \<^verbatim>\<open>Favicon\<close> signal is 0.
\<close>

theorem favicon_none_found_counterexample:
  "fetch_content online_env ''http://example.com'' = Inr (Some 200, Some page_plain) \<and>
   re_search online_env FaviconLink page_plain = None \<and>
   signal_of (extract_features_from_url online_env ''http://example.com'') ''Favicon'' = Some 0 \<and>
   signal_of (extract_features_from_url online_env ''http://example.com'') ''Favicon'' \<noteq> Some 1"
proof -
  from extract_online_plain obtain f where
    f: "extract_features_from_url online_env ''http://example.com'' = Inr f" ..
  have p: "urlparse online_env ''http://example.com'' =
      Inr \<lparr>scheme = ''http'', netloc = ''example.com'', path = ''''\<rparr>"
    by (simp add: online_env_simps urlparse_fixture_def)
  from extract_features_html_signal[OF f p fetch_content_online(1), of "''Favicon''"]
  obtain fs0 fs d where
    h: "html_features online_env d (Some 200) page_plain fs0 = Inr fs" and
    k: "f ''Favicon'' = fs ''Favicon''"
    by auto
  from html_features_favicon[OF h page_lengths(1)] k have "f ''Favicon'' = Some 0"
    by (auto simp: favicon_signal_def online_env_re)
  with f show ?thesis
    by (simp add: signal_of_def fetch_content_online online_env_re)
qed

text \<open>
  Claim C3 as amended. For a page fetched with status 200 and a non-empty body, a
  successful extraction sets \<^verbatim>\<open>Favicon\<close> to 0 when no favicon link is found; when one
  is found, to \<open>-1\<close> when the registrable domain of its href is non-empty and differs
  from the page's, and to 1 otherwise (the same domain, or an href without a
  registrable domain, such as a relative one).
\<close>

theorem favicon_signal_by_domain:
  assumes "extract_features_from_url env url = Inr features"
    and "urlparse env url = Inr parsed"
    and "fetch_content env url = Inr (Some 200, Some html)"
    and "html \<noteq> []"
    and "domain = registered_domain (tldextract env (host_of parsed))"
  shows "(re_search env FaviconLink html = None \<longrightarrow> features ''Favicon'' = Some 0) \<and>
         (\<forall>href. re_search env FaviconLink html = Some href \<longrightarrow>
            (\<exists>p. urlparse env href = Inr p \<and>
                 features ''Favicon'' =
                   Some (if registered_domain (tldextract env (netloc p)) \<noteq> [] \<and>
                            registered_domain (tldextract env (netloc p)) \<noteq> domain
                         then - 1 else 1)))"
proof -
  from extract_features_html_signal[OF assms(1,2,3), of "''Favicon''"] obtain fs0 fs where
    h: "html_features env domain (Some 200) html fs0 = Inr fs" and fk: "features ''Favicon'' = fs ''Favicon''"
    unfolding assms(5) by auto
  from html_features_favicon[OF h assms(4)] fk obtain fav where
    fav: "favicon_signal env domain html = Inr fav" and v: "features ''Favicon'' = Some fav"
    by auto
  from fav v show ?thesis
    by (auto simp: favicon_signal_def Let_def split: option.splits sum.splits)
qed

text \<open>
  The amended claim at \<^verbatim>\<open>https://example.com\<close>, whose page names a favicon on
  \<^verbatim>\<open>cdn.other.net\<close>.
\<close>

theorem favicon_signal_by_domain_witness:
  "\<exists>f. extract_features_from_url online_env ''https://example.com'' = Inr f \<and>
       fetch_content online_env ''https://example.com'' = Inr (Some 200, Some page_icon) \<and>
       re_search online_env FaviconLink page_icon = Some ''https://cdn.other.net/f.ico'' \<and>
       f ''Favicon'' = Some (- 1)"
proof -
  from extract_online_icon obtain f where
    f: "extract_features_from_url online_env ''https://example.com'' = Inr f" ..
  from favicon_signal_by_domain[OF f urlparse_examples(2) fetch_content_online(2) page_lengths(2) refl]
    online_env_re(3)
  obtain p where p: "urlparse online_env ''https://cdn.other.net/f.ico'' = Inr p" and
    v: "f ''Favicon'' =
          Some (if registered_domain (tldextract online_env (netloc p)) \<noteq> [] \<and>
                   registered_domain (tldextract online_env (netloc p)) \<noteq>
                   registered_domain (tldextract online_env
                     (host_of \<lparr>scheme = ''https'', netloc = ''example.com'', path = []\<rparr>))
                then - 1 else 1)"
    by blast
  from p have "p = \<lparr>scheme = ''https'', netloc = ''cdn.other.net'', path = ''/f.ico''\<rparr>"
    by (simp add: urlparse_examples)
  with v have "f ''Favicon'' = Some (- 1)"
    by (simp add: host_of_def online_env_simps tldextract_fixture_def)
  with f fetch_content_online(2) online_env_re(3) show ?thesis by blast
qed

subsection \<open>C4: the certificate check\<close>

text \<open>
  Claim C4 says that \<^verbatim>\<open>check_ssl\<close> returns \<open>-1\<close> at once when the scheme of the URL is
  not https, and otherwise decides by the days until the certificate expires. The
  code tests \<^verbatim>\<open>url.startswith('https')\<close>, which is case-sensitive: for
  \<^verbatim>\<open>HTTPS://example.com\<close>, whose scheme \<^verbatim>\<open>urlparse\<close> reports as https and which
  \<^verbatim>\<open>validate_url\<close> accepts, it returns \<open>-1\<close> without a handshake, although the
  certificate has 400 days left and the same URL in lower case gets 1.
\<close>

theorem check_ssl_uppercase_https:
  "urlparse online_env ''HTTPS://example.com'' =
     Inr \<lparr>scheme = ''https'', netloc = ''example.com'', path = ''''\<rparr> \<and>
   validate_url online_env ''HTTPS://example.com'' = Inr (True, ''Valid URL'') \<and>
   check_ssl online_env ''HTTPS://example.com'' ''example.com'' = Inr (- 1) \<and>
   check_ssl online_env ''https://example.com'' ''example.com'' = Inr 1"
  by (simp add: validate_examples check_ssl_online online_env_simps urlparse_fixture_def)

subsection \<open>C5: the age signal\<close>

text \<open>
  Claim C5 says that both age signals are 1 when the domain's age is at least 365
  days. \<^verbatim>\<open>get_domain_age\<close> computes the age as \<^verbatim>\<open>datetime.now() - cd\<close> inside its \<^verbatim>\<open>try\<close>;
  when WHOIS reports the creation date as a timezone-aware \<^verbatim>\<open>datetime\<close> the
  subtraction raises \<^verbatim>\<open>TypeError\<close>, the handler of line 66 swallows it, and the function
  returns \<open>-1\<close>, the value its docstring keeps for an unknown age. For
  \<^verbatim>\<open>http://example.com\<close>, registered 11405 days before the clock's reading, both
  signals are \<open>-1\<close> where the claim's bucket is 1. (With a creation date that is not
  timezone-aware the signals are the claim's buckets: lemma
  \<open>age_signals_of_extraction\<close>.)
\<close>

theorem age_signal_timezone_aware:
  "whois_lookup aware_env ''example.com'' = Inr (Multiple [AwareDateTime 808372800000000]) \<and>
   whois_age_spec aware_env ''example.com'' = Some 11405 \<and>
   age_signal_spec (Some 11405) = 1 \<and>
   get_domain_age aware_env ''example.com'' = Inr (- 1) \<and>
   signal_of (extract_features_from_url aware_env ''http://example.com'')
     ''Domain_registeration_length'' = Some (- 1) \<and>
   signal_of (extract_features_from_url aware_env ''http://example.com'')
     ''age_of_domain'' = Some (- 1)"
proof -
  from extract_aware obtain f where
    f: "extract_features_from_url aware_env ''http://example.com'' = Inr f" ..
  have p: "urlparse aware_env ''http://example.com'' =
      Inr \<lparr>scheme = ''http'', netloc = ''example.com'', path = []\<rparr>"
    by (simp add: aware_env_simps urlparse_fixture_def)
  have d: "registered_domain (tldextract aware_env
      (host_of \<lparr>scheme = ''http'', netloc = ''example.com'', path = []\<rparr>)) = ''example.com''"
    by (simp add: host_of_def aware_env_simps tldextract_fixture_def)
  have w: "whois_lookup aware_env ''example.com'' = Inr (Multiple [AwareDateTime 808372800000000])"
    by (simp add: aware_env_simps)
  have a: "whois_age_spec aware_env ''example.com'' = Some 11405"
    by (simp add: whois_age_spec_def aware_env_simps timedelta_days_def)
  have b: "age_signal_spec (Some 11405) = 1"
    by (simp add: age_signal_spec_def)
  have g: "get_domain_age aware_env ''example.com'' = Inr (- 1)"
    by (rule get_domain_age_aware)
      (simp add: creation_date_aware_def aware_env_simps first_creation_date_def)
  from extract_features_url_signal[OF f p, of "''Domain_registeration_length''"] g
  have 1: "f ''Domain_registeration_length'' = Some (- 1)"
    by (auto simp: d url_features_age age_val_of_def)
  from extract_features_url_signal[OF f p, of "''age_of_domain''"] g
  have 2: "f ''age_of_domain'' = Some (- 1)"
    by (auto simp: d url_features_age age_val_of_def)
  from w a b g 1 2 show ?thesis
    by (simp add: signal_of_def f)
qed

text \<open>
  The same evaluation read against the claim: the bucket of the domain's age is 1, the
  signal the code writes is \<open>-1\<close>.
\<close>

theorem age_signal_timezone_aware_witness:
  "age_signal_spec (whois_age_spec aware_env ''example.com'') = 1 \<and>
   signal_of (extract_features_from_url aware_env ''http://example.com'')
     ''Domain_registeration_length'' = Some (- 1) \<and>
   signal_of (extract_features_from_url aware_env ''http://example.com'')
     ''age_of_domain'' = Some (- 1)"
  using age_signal_timezone_aware by simp

subsection \<open>C6: the validator\<close>

text \<open>
  Claim C6 says that \<^verbatim>\<open>validate_url\<close> never raises. Line 103 calls \<^verbatim>\<open>urlparse\<close> outside
  any \<^verbatim>\<open>try\<close>, and \<^verbatim>\<open>urlparse\<close> raises \<^verbatim>\<open>ValueError\<close> on a network location with an
  unbalanced bracket: on \<^verbatim>\<open>http://[\<close> the validator raises instead of returning a
  reason. (Where \<^verbatim>\<open>urlparse\<close> returns, the validator decides by the seven rules in
  order: lemma \<open>validate_url_first_violation\<close>.)
\<close>

theorem validate_url_unbalanced_bracket:
  "validate_url offline_env ''http://['' = Inl (ValueError ''Invalid IPv6 URL'')"
  by (simp add: validate_url_def offline_env_simps urlparse_fixture_def)

subsection \<open>C7: the batch\<close>

text \<open>
  Claim C7 says that every batch yields the vectors of the URLs whose extraction
  succeeded and silently omits the others. A batch in which no extraction succeeds
  does not yield an empty result: line 206 raises, and the request ends with an
  HTTP 400 error.
\<close>

theorem batch_all_invalid_counterexample:
  "extract_features_from_url offline_env ''not a url'' =
     Inl (ValueError ''Invalid URL: Missing protocol (http:// or https://)'') \<and>
   predict_multi_url_features offline_env [''not a url''] =
     Inl (HTTPException 400 ''No valid features could be extracted from any of the URLs.'') \<and>
   predict_multi_url_features offline_env [''not a url''] \<noteq> Inr []"
proof -
  have e: "extract_features_from_url offline_env ''not a url'' =
     Inl (ValueError ''Invalid URL: Missing protocol (http:// or https://)'')"
    by (rule extract_not_a_url) (simp add: offline_env_simps urlparse_fixture_def)
  then have "\<forall>u\<in>set [''not a url'']. isl (extract_features_from_url offline_env u)"
    by simp
  from predict_multi_url_features_none[OF this] e show ?thesis by simp
qed

text \<open>
  Claim C7 as amended. When the extraction of at least one URL of the batch
  succeeds, the batch yields one vector per URL whose extraction succeeded, in the
  order of the batch, each carrying its URL under the key \<^verbatim>\<open>url\<close> and the signals of
  that URL's extraction; the URLs whose extraction raised are omitted. When no
  extraction succeeds the request fails with HTTP 400. In particular, where
  \<^verbatim>\<open>urlparse\<close> parses \<^verbatim>\<open>not a url\<close> and \<^verbatim>\<open>http://bit.ly/xyz\<close> as CPython does and the
  extraction of the two well-formed URLs succeeds, the batch
  \<^verbatim>\<open>http://good.example.com\<close>, \<^verbatim>\<open>not a url\<close>, \<^verbatim>\<open>http://bit.ly/xyz\<close> yields exactly two
  vectors, and the one of \<^verbatim>\<open>http://bit.ly/xyz\<close> has \<^verbatim>\<open>Shortining_Service\<close> \<open>-1\<close>.
\<close>

theorem batch_extraction:
  "((\<exists>u\<in>set urls. \<not> isl (extract_features_from_url env u)) \<longrightarrow>
      (\<exists>vs. predict_multi_url_features env urls = Inr vs \<and>
         list_all2
           (\<lambda>v u. v ''url'' = Some (StrV u) \<and>
              (\<exists>f. extract_features_from_url env u = Inr f \<and>
                   (\<forall>k. k \<noteq> ''url'' \<longrightarrow> v k = map_option IntV (f k))))
           vs (filter (\<lambda>u. \<not> isl (extract_features_from_url env u)) urls))) \<and>
   ((\<forall>u\<in>set urls. isl (extract_features_from_url env u)) \<longrightarrow>
      predict_multi_url_features env urls =
        Inl (HTTPException 400 ''No valid features could be extracted from any of the URLs.'')) \<and>
   (urlparse env ''not a url'' = Inr \<lparr>scheme = '''', netloc = '''', path = ''not a url''\<rparr> \<and>
    urlparse env ''http://bit.ly/xyz'' = Inr \<lparr>scheme = ''http'', netloc = ''bit.ly'', path = ''/xyz''\<rparr> \<and>
    \<not> isl (extract_features_from_url env ''http://good.example.com'') \<and>
    \<not> isl (extract_features_from_url env ''http://bit.ly/xyz'') \<longrightarrow>
      (\<exists>vg vb. predict_multi_url_features env
                  [''http://good.example.com'', ''not a url'', ''http://bit.ly/xyz''] = Inr [vg, vb] \<and>
         vg ''url'' = Some (StrV ''http://good.example.com'') \<and>
         vb ''url'' = Some (StrV ''http://bit.ly/xyz'') \<and>
         vb ''Shortining_Service'' = Some (IntV (- 1))))"
proof (intro conjI impI)
  assume a: "\<exists>u\<in>set urls. \<not> isl (extract_features_from_url env u)"
  have "list_all2
           (\<lambda>v u. v ''url'' = Some (StrV u) \<and>
              (\<exists>f. extract_features_from_url env u = Inr f \<and>
                   (\<forall>k. k \<noteq> ''url'' \<longrightarrow> v k = map_option IntV (f k))))
           (map (\<lambda>u. the (process_url_features env u))
              (filter (\<lambda>u. \<not> isl (extract_features_from_url env u)) urls))
           (filter (\<lambda>u. \<not> isl (extract_features_from_url env u)) urls)"
    unfolding list_all2_map1 list_all2_same
  proof
    fix u assume "u \<in> set (filter (\<lambda>u. \<not> isl (extract_features_from_url env u)) urls)"
    then have "\<not> isl (extract_features_from_url env u)" by simp
    from tagged_vector[OF this]
    show "the (process_url_features env u) ''url'' = Some (StrV u) \<and>
              (\<exists>f. extract_features_from_url env u = Inr f \<and>
                   (\<forall>k. k \<noteq> ''url'' \<longrightarrow> the (process_url_features env u) k = map_option IntV (f k)))"
      by blast
  qed
  with predict_multi_url_features_some[OF a]
  show "\<exists>vs. predict_multi_url_features env urls = Inr vs \<and>
         list_all2
           (\<lambda>v u. v ''url'' = Some (StrV u) \<and>
              (\<exists>f. extract_features_from_url env u = Inr f \<and>
                   (\<forall>k. k \<noteq> ''url'' \<longrightarrow> v k = map_option IntV (f k))))
           vs (filter (\<lambda>u. \<not> isl (extract_features_from_url env u)) urls)"
    by blast
next
  assume "\<forall>u\<in>set urls. isl (extract_features_from_url env u)"
  then show "predict_multi_url_features env urls =
        Inl (HTTPException 400 ''No valid features could be extracted from any of the URLs.'')"
    by (rule predict_multi_url_features_none)
next
  assume h: "urlparse env ''not a url'' = Inr \<lparr>scheme = '''', netloc = '''', path = ''not a url''\<rparr> \<and>
    urlparse env ''http://bit.ly/xyz'' = Inr \<lparr>scheme = ''http'', netloc = ''bit.ly'', path = ''/xyz''\<rparr> \<and>
    \<not> isl (extract_features_from_url env ''http://good.example.com'') \<and>
    \<not> isl (extract_features_from_url env ''http://bit.ly/xyz'')"
  then have bad: "isl (extract_features_from_url env ''not a url'')"
    by (simp add: extract_not_a_url)
  from h have good: "\<not> isl (extract_features_from_url env ''http://good.example.com'')"
    and bit: "\<not> isl (extract_features_from_url env ''http://bit.ly/xyz'')"
    and pb: "urlparse env ''http://bit.ly/xyz'' = Inr \<lparr>scheme = ''http'', netloc = ''bit.ly'', path = ''/xyz''\<rparr>"
    by simp_all
  from good have "\<exists>u\<in>set [''http://good.example.com'', ''not a url'', ''http://bit.ly/xyz''].
      \<not> isl (extract_features_from_url env u)" by simp
  from predict_multi_url_features_some[OF this] good bad bit
  have r: "predict_multi_url_features env [''http://good.example.com'', ''not a url'', ''http://bit.ly/xyz'']
    = Inr [the (process_url_features env ''http://good.example.com''),
           the (process_url_features env ''http://bit.ly/xyz'')]"
    by simp
  from tagged_vector[OF good]
  have ug: "the (process_url_features env ''http://good.example.com'') ''url'' = Some (StrV ''http://good.example.com'')"
    by blast
  from tagged_vector[OF bit] obtain f where
    f: "extract_features_from_url env ''http://bit.ly/xyz'' = Inr f" and
    ub: "the (process_url_features env ''http://bit.ly/xyz'') ''url'' = Some (StrV ''http://bit.ly/xyz'')" and
    k: "\<forall>k. k \<noteq> ''url'' \<longrightarrow> the (process_url_features env ''http://bit.ly/xyz'') k = map_option IntV (f k)"
    by blast
  from extract_features_url_signal[OF f pb, of "''Shortining_Service''"]
  have "f ''Shortining_Service'' = Some (- 1)"
    by (auto simp: url_features_shortener host_of_def SHORTENERS_def lower_def lower_char_def)
  with k have "the (process_url_features env ''http://bit.ly/xyz'') ''Shortining_Service'' = Some (IntV (- 1))"
    by simp
  with r ug ub
  show "\<exists>vg vb. predict_multi_url_features env
                  [''http://good.example.com'', ''not a url'', ''http://bit.ly/xyz''] = Inr [vg, vb] \<and>
         vg ''url'' = Some (StrV ''http://good.example.com'') \<and>
         vb ''url'' = Some (StrV ''http://bit.ly/xyz'') \<and>
         vb ''Shortining_Service'' = Some (IntV (- 1))"
    by blast
qed

text \<open>
  The amended claim on the machine without network libraries: the batch of the
  specification, and a batch of two malformed URLs.
\<close>

theorem batch_extraction_witness:
  "(\<exists>vg vb. predict_multi_url_features offline_env
              [''http://good.example.com'', ''not a url'', ''http://bit.ly/xyz''] = Inr [vg, vb] \<and>
      vg ''url'' = Some (StrV ''http://good.example.com'') \<and>
      vb ''url'' = Some (StrV ''http://bit.ly/xyz'') \<and>
      vb ''Shortining_Service'' = Some (IntV (- 1))) \<and>
   predict_multi_url_features offline_env [''not a url'', ''http://[''] =
      Inl (HTTPException 400 ''No valid features could be extracted from any of the URLs.'')"
proof -
  from extract_bitly have b: "\<not> isl (extract_features_from_url offline_env ''http://bit.ly/xyz'')"
    by auto
  note t = batch_extraction[of _ offline_env]
  from t[of "[]"] urlparse_examples(4,5) extract_good b
  have 1: "\<exists>vg vb. predict_multi_url_features offline_env
              [''http://good.example.com'', ''not a url'', ''http://bit.ly/xyz''] = Inr [vg, vb] \<and>
      vg ''url'' = Some (StrV ''http://good.example.com'') \<and>
      vb ''url'' = Some (StrV ''http://bit.ly/xyz'') \<and>
      vb ''Shortining_Service'' = Some (IntV (- 1))"
    by blast
  have "isl (extract_features_from_url offline_env ''not a url'')"
    by (simp add: extract_not_a_url urlparse_examples)
  moreover have "isl (extract_features_from_url offline_env ''http://['')"
    by (simp add: extract_features_from_url_def validate_url_def offline_env_simps urlparse_fixture_def)
  ultimately have "\<forall>u\<in>set [''not a url'', ''http://['']. isl (extract_features_from_url offline_env u)"
    by simp
  with t[of "[''not a url'', ''http://['']"]
  have 2: "predict_multi_url_features offline_env [''not a url'', ''http://[''] =
      Inl (HTTPException 400 ''No valid features could be extracted from any of the URLs.'')"
    by blast
  from 1 2 show ?thesis ..
qed

subsection \<open>C8: the content fetcher\<close>

text \<open>
  Claim C8. \<^verbatim>\<open>fetch_content\<close> never raises. It returns the status code with the first
  100000 characters of the body, or the pair of \<^verbatim>\<open>None\<close> when \<^verbatim>\<open>requests\<close> is missing,
  when the request raises, or when decoding the body raises.
\<close>

theorem fetch_content_never_raises:
  "(\<exists>status body. fetch_content env url = Inr (status, body) \<and>
      ((status = None \<and> body = None) \<or>
       (\<exists>s b. status = Some s \<and> body = Some b \<and> length b \<le> 100000))) \<and>
   (\<not> requests_available env \<longrightarrow> fetch_content env url = Inr (None, None)) \<and>
   (\<forall>e. requests_get env url = Inl e \<longrightarrow> fetch_content env url = Inr (None, None)) \<and>
   (\<forall>r e. requests_get env url = Inr r \<and> text_of r = Inl e \<longrightarrow>
      fetch_content env url = Inr (None, None)) \<and>
   (\<forall>r t. requests_available env \<and> requests_get env url = Inr r \<and> text_of r = Inr t \<longrightarrow>
      fetch_content env url = Inr (Some (status_code r), Some (take 100000 t)))"
  by (auto simp: fetch_content_def fetch_content_try_def split: sum.splits)

text \<open>
  The theorem without \<^verbatim>\<open>requests\<close>, on a request that fails, and on a request that
  succeeds.
\<close>

theorem fetch_content_never_raises_witness:
  "fetch_content offline_env ''http://example.com'' = Inr (None, None) \<and>
   fetch_content online_env ''http://bit.ly/xyz'' = Inr (None, None) \<and>
   fetch_content online_env ''http://example.com'' = Inr (Some 200, Some page_plain) \<and>
   length page_plain \<le> 100000"
proof -
  have 1: "fetch_content offline_env ''http://example.com'' = Inr (None, None)"
    using fetch_content_never_raises[of offline_env "''http://example.com''"]
    by (simp add: offline_env_simps)
  have g: "requests_get online_env ''http://bit.ly/xyz'' = Inl (LibraryError ''ConnectionError'')"
    by (simp add: online_env_def)
  have 2: "fetch_content online_env ''http://bit.ly/xyz'' = Inr (None, None)"
    using fetch_content_never_raises[of online_env "''http://bit.ly/xyz''"] g by blast
  have "fetch_content online_env ''http://example.com'' =
      Inr (Some (status_code \<lparr>status_code = 200, text_of = Inr page_plain\<rparr>), Some (take 100000 page_plain))"
    using fetch_content_never_raises[of online_env "''http://example.com''"]
    by (simp add: online_env_simps)
  then have 3: "fetch_content online_env ''http://example.com'' = Inr (Some 200, Some page_plain)"
    by (simp add: page_lengths)
  have 4: "length page_plain \<le> 100000" by (simp add: page_plain_def)
  from 1 2 3 4 show ?thesis by blast
qed

subsection \<open>C9: the two column lists\<close>

text \<open>
  Claim C9. The API layer's \<^verbatim>\<open>MODEL_FEATURE_ORDER\<close> is the extractor's \<^verbatim>\<open>COLUMNS\<close> with its
  last entry \<^verbatim>\<open>Result\<close> removed: the same 30 names at the same positions.
\<close>

theorem MODEL_FEATURE_ORDER_is_COLUMNS_without_Result:
  "MODEL_FEATURE_ORDER = butlast COLUMNS \<and> last COLUMNS = ''Result'' \<and>
   length MODEL_FEATURE_ORDER = 30"
  by (simp add: MODEL_FEATURE_ORDER_def COLUMNS_def)

subsection \<open>C10: the two age signals agree\<close>

text \<open>
  Claim C10. In a successful extraction, \<^verbatim>\<open>Domain_registeration_length\<close> and
  \<^verbatim>\<open>age_of_domain\<close> are both present and equal.
\<close>

theorem age_signals_agree:
  assumes "extract_features_from_url env url = Inr features"
  shows "features ''Domain_registeration_length'' = features ''age_of_domain'' \<and>
         features ''Domain_registeration_length'' \<noteq> None"
proof -
  from extract_features_success[OF assms] obtain parsed status html d host sub ssl age_val dns fs where
    h: "html_features env d status html (url_features url parsed host sub ssl age_val dns) = Inr fs" and
    f: "features = closing_features parsed d status fs"
    by blast
  have "features ''Domain_registeration_length'' = Some age_val"
    unfolding f by (simp add: closing_features_other html_features_other[OF h] url_features_age)
  moreover have "features ''age_of_domain'' = Some age_val"
    unfolding f by (simp add: closing_features_other html_features_other[OF h] url_features_age)
  ultimately show ?thesis by simp
qed

text \<open>
  The theorem at \<^verbatim>\<open>http://example.com\<close>.
\<close>

theorem age_signals_agree_witness:
  "\<exists>f. extract_features_from_url online_env ''http://example.com'' = Inr f \<and>
       f ''Domain_registeration_length'' = f ''age_of_domain'' \<and>
       f ''Domain_registeration_length'' \<noteq> None"
proof -
  from extract_online_plain obtain f where
    f: "extract_features_from_url online_env ''http://example.com'' = Inr f" ..
  from age_signals_agree[OF f] f show ?thesis by blast
qed

end
